theory Spec2Isabelle
  imports Complex_Main "HOL-Library.Sublist"
begin

section \<open>Data model (api/schemas.py)\<close>

text \<open>
  Python floats occur only as operands of comparisons (and of \<open>now - ts\<close> in the rate
  limiter); they are modelled by the real number each float denotes. Python integers are
  unbounded and modelled by \<open>int\<close>. Python's number formatting inside f-strings
  (\<open>:.2f\<close> and \<open>str\<close>) is not defined by this repository; it is taken as a parameter.
\<close>

datatype ChannelType = CHAT | EMAIL | SOCIAL

datatype SeverityLevel = LOW | MEDIUM | HIGH | CRITICAL

datatype SupportedLanguage = EN | AR

fun channel_value :: "ChannelType \<Rightarrow> string" where
  "channel_value CHAT = ''chat''"
| "channel_value EMAIL = ''email''"
| "channel_value SOCIAL = ''social''"

fun language_value :: "SupportedLanguage \<Rightarrow> string" where
  "language_value EN = ''en''"
| "language_value AR = ''ar''"

record OCSOutput =
  ocs_response_text :: string
  ocs_intent :: string
  ocs_suggested_faq_ids :: "string list"
  ocs_escalation_flag :: bool
  ocs_language :: SupportedLanguage

record FAQArticle =
  article_id :: string
  title :: string
  content_snippet :: string
  confidence_score :: real

record KFOOutput =
  kfo_suggested_faq_articles :: "FAQArticle list"
  kfo_updated_knowledge :: bool

record EIAOutput =
  eia_sentiment_score :: real
  eia_dominant_emotion :: string
  eia_escalation_flag :: bool
  eia_tone_recommendation :: string

record ProactiveAlert =
  alert_type :: string
  severity :: SeverityLevel
  recommended_action :: string
  alert_timestamp :: string

record PIROutput =
  pir_proactive_alerts :: "ProactiveAlert list"

record FeedbackAnalysis =
  csat_score :: "real option"
  sentiment_trend :: "string option"
  top_issues :: "string list"
  knowledge_gap_flags :: "string list"

record KnowledgeBaseUpdate =
  kb_article_id :: string
  kb_update_type :: string
  kb_content :: string

record FANOutput =
  fan_feedback_analysis :: FeedbackAnalysis
  fan_knowledge_base_update :: "KnowledgeBaseUpdate list"

text \<open>\<open>FeedbackAnalysis()\<close> with the field defaults of the schema.\<close>

definition FeedbackAnalysis_default :: FeedbackAnalysis where
  "FeedbackAnalysis_default =
     \<lparr>csat_score = None, sentiment_trend = None, top_issues = [], knowledge_gap_flags = []\<rparr>"

text \<open>
  One entry of \<open>AgentLogs\<close>: either \<open>output.model_dump()\<close>, the dictionary of the
  output's fields (represented by the output itself), or the dictionary
  \<open>{"status": s}\<close>. No output schema has a field \<open>status\<close>, so the two never coincide.
\<close>

datatype 'a agent_log = ModelDump 'a | Status string

record AgentLogs =
  log_ocs :: "OCSOutput agent_log"
  log_kfo :: "KFOOutput agent_log"
  log_eia :: "EIAOutput agent_log"
  log_pir :: "PIROutput agent_log"
  log_fan :: "FANOutput agent_log"

record OrchestratorResponse =
  resp_interaction_id :: string
  resp_timestamp :: string
  resp_customer_id :: string
  resp_channel :: ChannelType
  resp_language :: SupportedLanguage
  resp_response_text :: string
  resp_intent :: string
  resp_sentiment_score :: real
  resp_dominant_emotion :: string
  resp_escalation_flag :: bool
  resp_escalation_reason :: "string option"
  resp_suggested_faq_articles :: "FAQArticle list"
  resp_proactive_alerts :: "ProactiveAlert list"
  resp_feedback_analysis :: FeedbackAnalysis
  resp_agent_logs :: AgentLogs

section \<open>Conversation context (orchestrator/context_manager.py, db/models.py)\<close>

record history_entry =
  role :: string
  text_of :: string
  timestamp :: string

text \<open>
  The context snapshot that \<open>get_or_create\<close> returns: a dictionary that always has
  these ten keys.
\<close>

record conversation_context =
  conversation_id :: string
  ctx_customer_id :: string
  ctx_channel :: string
  ctx_language :: string
  history :: "history_entry list"
  previous_intents :: "string list"
  emotion_trend :: "string list"
  is_escalated :: bool
  turn_count :: int
  unresolved_turns :: int

section \<open>Escalation policy (orchestrator/aggregator.py)\<close>

text \<open>
  \<open>ESCALATION_CONFIG\<close> is read from a YAML file that is not part of the sources (and is
  \<open>{}\<close> when the file is missing). A field is \<open>None\<close> when the key is absent; the
  defaults of the \<open>.get\<close> calls are in the code. The context passed to
  \<open>_check_escalation\<close> is the snapshot of \<open>get_or_create\<close>, which always has the keys
  \<open>emotion_trend\<close> and \<open>unresolved_turns\<close>, so the defaults of \<open>context.get\<close> are
  never reached.
\<close>

record escalation_config =
  cfg_threshold :: "real option"
  cfg_trigger_emotions :: "string list option"
  cfg_consecutive_turns :: "int option"
  cfg_max_unresolved_turns :: "int option"

definition empty_config :: escalation_config where
  "empty_config =
     \<lparr>cfg_threshold = None, cfg_trigger_emotions = None,
      cfg_consecutive_turns = None, cfg_max_unresolved_turns = None\<rparr>"

definition sentiment_threshold :: "escalation_config \<Rightarrow> real" where
  "sentiment_threshold cfg = (case cfg_threshold cfg of None \<Rightarrow> - 0.65 | Some t \<Rightarrow> t)"

definition trigger_emotions :: "escalation_config \<Rightarrow> string set" where
  "trigger_emotions cfg =
     set (case cfg_trigger_emotions cfg of None \<Rightarrow> [''anger'', ''distress''] | Some es \<Rightarrow> es)"

definition consecutive_required :: "escalation_config \<Rightarrow> int" where
  "consecutive_required cfg = (case cfg_consecutive_turns cfg of None \<Rightarrow> 2 | Some n \<Rightarrow> n)"

definition max_unresolved :: "escalation_config \<Rightarrow> int" where
  "max_unresolved cfg = (case cfg_max_unresolved_turns cfg of None \<Rightarrow> 3 | Some n \<Rightarrow> n)"

text \<open>Python's number formatting, a parameter.\<close>

record py_format =
  fmt_2f :: "real \<Rightarrow> string"
  str_float :: "real \<Rightarrow> string"
  str_int :: "int \<Rightarrow> string"

text \<open>
  The loop \<open>for emotion in reversed(xs): if emotion in trigger: count += 1 else: break\<close>,
  run on the reversed list with the running count.
\<close>

fun count_loop :: "string set \<Rightarrow> string list \<Rightarrow> int \<Rightarrow> int" where
  "count_loop trig [] n = n"
| "count_loop trig (e # es) n = (if e \<in> trig then count_loop trig es (n + 1) else n)"

definition consecutive_count :: "string set \<Rightarrow> string list \<Rightarrow> int" where
  "consecutive_count trig xs = count_loop trig (rev xs) 0"

text \<open>
  The loop over \<open>pir_output.proactive_alerts\<close>: the first alert of critical severity
  appends one reason and breaks.
\<close>

fun critical_alert_reasons :: "ProactiveAlert list \<Rightarrow> string list" where
  "critical_alert_reasons [] = []"
| "critical_alert_reasons (a # as) =
     (if severity a = CRITICAL then [''Critical proactive alert: '' @ alert_type a @ ''.'']
      else critical_alert_reasons as)"

text \<open>The seven appends of \<open>_check_escalation\<close>, one definition per block of the source.\<close>

definition reasons_ocs_flag :: "OCSOutput option \<Rightarrow> string list" where
  "reasons_ocs_flag ocs_output =
     (case ocs_output of
        Some ocs \<Rightarrow>
          if ocs_escalation_flag ocs then [''Customer explicitly requested human agent.''] else []
      | None \<Rightarrow> [])"

definition reasons_ocs_intent :: "OCSOutput option \<Rightarrow> string list" where
  "reasons_ocs_intent ocs_output =
     (case ocs_output of
        Some ocs \<Rightarrow>
          if ocs_intent ocs = ''escalation_request''
          then [''Intent classified as escalation_request.''] else []
      | None \<Rightarrow> [])"

definition reasons_sentiment ::
  "py_format \<Rightarrow> escalation_config \<Rightarrow> EIAOutput option \<Rightarrow> string list" where
  "reasons_sentiment fmt cfg eia_output =
     (case eia_output of
        Some eia \<Rightarrow>
          if eia_sentiment_score eia < sentiment_threshold cfg
          then [''Sentiment score ('' @ fmt_2f fmt (eia_sentiment_score eia)
                 @ '') below threshold ('' @ str_float fmt (sentiment_threshold cfg) @ '').'']
          else []
      | None \<Rightarrow> [])"

definition reasons_emotion ::
  "py_format \<Rightarrow> escalation_config \<Rightarrow> EIAOutput option \<Rightarrow> conversation_context \<Rightarrow> string list" where
  "reasons_emotion fmt cfg eia_output ctx =
     (case eia_output of
        Some eia \<Rightarrow>
          (let emotion_trend_check = emotion_trend ctx @ [eia_dominant_emotion eia];
               count = consecutive_count (trigger_emotions cfg) emotion_trend_check
           in if count \<ge> consecutive_required cfg
              then [''Dominant emotion ('' @ eia_dominant_emotion eia @ '') persisted for ''
                     @ str_int fmt count @ '' consecutive turns.'']
              else [])
      | None \<Rightarrow> [])"

definition reasons_eia_flag :: "EIAOutput option \<Rightarrow> string list" where
  "reasons_eia_flag eia_output =
     (case eia_output of
        Some eia \<Rightarrow>
          if eia_escalation_flag eia
          then [''Emotional Intelligence Agent triggered escalation.''] else []
      | None \<Rightarrow> [])"

definition reasons_pir :: "PIROutput option \<Rightarrow> string list" where
  "reasons_pir pir_output =
     (case pir_output of
        Some pir \<Rightarrow> critical_alert_reasons (pir_proactive_alerts pir)
      | None \<Rightarrow> [])"

definition reasons_unresolved ::
  "py_format \<Rightarrow> escalation_config \<Rightarrow> conversation_context \<Rightarrow> string list" where
  "reasons_unresolved fmt cfg ctx =
     (let unresolved = unresolved_turns ctx
      in if unresolved \<ge> max_unresolved cfg
         then [''No resolution after '' @ str_int fmt unresolved
                @ '' consecutive turns (threshold: '' @ str_int fmt (max_unresolved cfg) @ '').'']
         else [])"

text \<open>The list \<open>reasons\<close> at the end of \<open>_check_escalation\<close>.\<close>

definition escalation_reasons ::
  "py_format \<Rightarrow> escalation_config \<Rightarrow> OCSOutput option \<Rightarrow> EIAOutput option
     \<Rightarrow> PIROutput option \<Rightarrow> conversation_context \<Rightarrow> string list" where
  "escalation_reasons fmt cfg ocs_output eia_output pir_output ctx =
     reasons_ocs_flag ocs_output
     @ reasons_ocs_intent ocs_output
     @ reasons_sentiment fmt cfg eia_output
     @ reasons_emotion fmt cfg eia_output ctx
     @ reasons_eia_flag eia_output
     @ reasons_pir pir_output
     @ reasons_unresolved fmt cfg ctx"

text \<open>\<open>sep.join(xs)\<close>.\<close>

fun join :: "string \<Rightarrow> string list \<Rightarrow> string" where
  "join sep [] = []"
| "join sep [x] = x"
| "join sep (x # y # ys) = x @ sep @ join sep (y # ys)"

definition check_escalation ::
  "py_format \<Rightarrow> escalation_config \<Rightarrow> OCSOutput option \<Rightarrow> EIAOutput option
     \<Rightarrow> PIROutput option \<Rightarrow> conversation_context \<Rightarrow> bool \<times> string option" where
  "check_escalation fmt cfg ocs_output eia_output pir_output ctx =
     (let reasons = escalation_reasons fmt cfg ocs_output eia_output pir_output ctx
      in if reasons \<noteq> [] then (True, Some (join '' | '' reasons)) else (False, None))"

section \<open>Response aggregation (orchestrator/aggregator.py)\<close>

text \<open>
  \<open>aggregate_outputs\<close>. The response's timestamp is \<open>datetime.now\<close>, an input here. A
  pydantic model instance is always truthy, so \<open>if ocs_output\<close> tests for \<open>None\<close>.
\<close>

definition aggregate_outputs ::
  "py_format \<Rightarrow> escalation_config \<Rightarrow> string \<Rightarrow> string \<Rightarrow> string \<Rightarrow> ChannelType
     \<Rightarrow> SupportedLanguage \<Rightarrow> string \<Rightarrow> conversation_context
     \<Rightarrow> OCSOutput option \<Rightarrow> KFOOutput option \<Rightarrow> EIAOutput option \<Rightarrow> PIROutput option
     \<Rightarrow> FANOutput option \<Rightarrow> OrchestratorResponse" where
  "aggregate_outputs fmt cfg now interaction_id customer_id channel language customer_message
       ctx ocs_output kfo_output eia_output pir_output fan_output =
     (let (escalation_flag, escalation_reason) =
            check_escalation fmt cfg ocs_output eia_output pir_output ctx;
          response_text = (case ocs_output of Some ocs \<Rightarrow> ocs_response_text ocs | None \<Rightarrow> '''')
      in \<lparr>resp_interaction_id = interaction_id,
          resp_timestamp = now,
          resp_customer_id = customer_id,
          resp_channel = channel,
          resp_language = language,
          resp_response_text = response_text,
          resp_intent = (case ocs_output of Some ocs \<Rightarrow> ocs_intent ocs | None \<Rightarrow> ''unknown''),
          resp_sentiment_score =
            (case eia_output of Some eia \<Rightarrow> eia_sentiment_score eia | None \<Rightarrow> 0),
          resp_dominant_emotion =
            (case eia_output of Some eia \<Rightarrow> eia_dominant_emotion eia | None \<Rightarrow> ''neutral''),
          resp_escalation_flag = escalation_flag,
          resp_escalation_reason = escalation_reason,
          resp_suggested_faq_articles =
            (case kfo_output of Some kfo \<Rightarrow> kfo_suggested_faq_articles kfo | None \<Rightarrow> []),
          resp_proactive_alerts =
            (case pir_output of Some pir \<Rightarrow> pir_proactive_alerts pir | None \<Rightarrow> []),
          resp_feedback_analysis =
            (case fan_output of Some fan \<Rightarrow> fan_feedback_analysis fan
             | None \<Rightarrow> FeedbackAnalysis_default),
          resp_agent_logs =
            \<lparr>log_ocs = (case ocs_output of Some ocs \<Rightarrow> ModelDump ocs | None \<Rightarrow> Status ''skipped''),
             log_kfo = (case kfo_output of Some kfo \<Rightarrow> ModelDump kfo | None \<Rightarrow> Status ''skipped''),
             log_eia = (case eia_output of Some eia \<Rightarrow> ModelDump eia | None \<Rightarrow> Status ''skipped''),
             log_pir = (case pir_output of Some pir \<Rightarrow> ModelDump pir | None \<Rightarrow> Status ''skipped''),
             log_fan = (case fan_output of Some fan \<Rightarrow> ModelDump fan
                        | None \<Rightarrow> Status ''pending_async'')\<rparr>\<rparr>)"

text \<open>The tone hint that \<open>aggregate_outputs\<close> only logs.\<close>

definition tone_rec :: "EIAOutput option \<Rightarrow> string" where
  "tone_rec eia_output =
     (case eia_output of Some eia \<Rightarrow> eia_tone_recommendation eia | None \<Rightarrow> ''neutral'')"

section \<open>The escalation checks as the specification words them\<close>

text \<open>
  The seven checks of the policy, each as a predicate on the inputs, independent of how
  the code computes its reason list.
\<close>

definition fires_explicit_flag :: "OCSOutput option \<Rightarrow> bool" where
  "fires_explicit_flag ocs_output = (\<exists>ocs. ocs_output = Some ocs \<and> ocs_escalation_flag ocs)"

definition fires_escalation_intent :: "OCSOutput option \<Rightarrow> bool" where
  "fires_escalation_intent ocs_output =
     (\<exists>ocs. ocs_output = Some ocs \<and> ocs_intent ocs = ''escalation_request'')"

definition fires_sentiment :: "escalation_config \<Rightarrow> EIAOutput option \<Rightarrow> bool" where
  "fires_sentiment cfg eia_output =
     (\<exists>eia. eia_output = Some eia \<and> eia_sentiment_score eia < sentiment_threshold cfg)"

text \<open>
  The streak of trigger emotions at the end of a sequence: the labels counted from the end
  backward until a label outside the trigger set.
\<close>

definition trailing_streak :: "string set \<Rightarrow> string list \<Rightarrow> nat" where
  "trailing_streak trig xs = length (takeWhile (\<lambda>e. e \<in> trig) (rev xs))"

definition fires_consecutive ::
  "escalation_config \<Rightarrow> EIAOutput option \<Rightarrow> conversation_context \<Rightarrow> bool" where
  "fires_consecutive cfg eia_output ctx =
     (\<exists>eia. eia_output = Some eia \<and>
        consecutive_required cfg
          \<le> int (trailing_streak (trigger_emotions cfg)
                   (emotion_trend ctx @ [eia_dominant_emotion eia])))"

definition fires_eia_flag :: "EIAOutput option \<Rightarrow> bool" where
  "fires_eia_flag eia_output = (\<exists>eia. eia_output = Some eia \<and> eia_escalation_flag eia)"

definition fires_critical_alert :: "PIROutput option \<Rightarrow> bool" where
  "fires_critical_alert pir_output =
     (\<exists>pir. pir_output = Some pir \<and> (\<exists>a \<in> set (pir_proactive_alerts pir). severity a = CRITICAL))"

definition fires_unresolved :: "escalation_config \<Rightarrow> conversation_context \<Rightarrow> bool" where
  "fires_unresolved cfg ctx = (max_unresolved cfg \<le> unresolved_turns ctx)"

text \<open>The number of reasons a check contributes: one when it fires, none otherwise.\<close>

definition one_if :: "bool \<Rightarrow> nat" where
  "one_if b = (if b then 1 else 0)"

section \<open>The sentiment agent's own policy (agents/emotional_intelligence/escalation_policy.py)\<close>

text \<open>
  \<open>check_escalation\<close> of the escalation policy module, with the configuration that
  \<open>_load_config\<close> returns as a parameter. It runs the same backward loop on
  \<open>emotion_history + [dominant_emotion]\<close>.
\<close>

definition policy_reasons ::
  "py_format \<Rightarrow> escalation_config \<Rightarrow> real \<Rightarrow> string \<Rightarrow> string list \<Rightarrow> string list" where
  "policy_reasons fmt config sentiment_score dominant_emotion emotion_history =
     (if sentiment_score < sentiment_threshold config
      then [''Sentiment score ('' @ fmt_2f fmt sentiment_score
             @ '') below threshold ('' @ str_float fmt (sentiment_threshold config) @ '')'']
      else [])
     @ (let check_list = emotion_history @ [dominant_emotion];
            consecutive = consecutive_count (trigger_emotions config) check_list
        in if consecutive \<ge> consecutive_required config
           then [''Trigger emotion '' @ [CHR 0x27] @ dominant_emotion @ [CHR 0x27]
                  @ '' detected for '' @ str_int fmt consecutive @ '' consecutive turns'']
           else [])"

definition policy_check_escalation ::
  "py_format \<Rightarrow> escalation_config \<Rightarrow> real \<Rightarrow> string \<Rightarrow> string list
     \<Rightarrow> bool \<times> string option" where
  "policy_check_escalation fmt config sentiment_score dominant_emotion emotion_history =
     (let reasons = policy_reasons fmt config sentiment_score dominant_emotion emotion_history
      in if reasons \<noteq> [] then (True, Some (join '' | '' reasons)) else (False, None))"

section \<open>Logging (structlog)\<close>

text \<open>
  A structured log entry: level, event name and key-value pairs. Entries are returned by
  the operation that emits them, in the order of emission.
\<close>

datatype log_level = Info | Warning | Error

datatype log_value = VStr string | VInt int | VBool bool

datatype log_event = Log log_level string "(string \<times> log_value) list"

section \<open>Exceptions\<close>

text \<open>
  What a Python call can raise, by the only distinction the code makes
  (\<open>except Exception\<close>): an instance of \<open>Exception\<close> (with its \<open>str(e)\<close>), or an
  instance of \<open>BaseException\<close> outside \<open>Exception\<close> (\<open>KeyboardInterrupt\<close>,
  \<open>SystemExit\<close>, \<open>asyncio.CancelledError\<close>, \<open>GeneratorExit\<close>), with its class name.
  A fallible call returns \<open>raised + 'a\<close>, \<open>Inl\<close> for the raise.
\<close>

datatype raised = Exception string | NonException string

definition bind_raised :: "raised + 'a \<Rightarrow> ('a \<Rightarrow> raised + 'b) \<Rightarrow> raised + 'b" where
  "bind_raised r f = (case r of Inl e \<Rightarrow> Inl e | Inr v \<Rightarrow> f v)"

section \<open>Conversation store (db/models.py, orchestrator/context_manager.py)\<close>

type_synonym datetime = string

text \<open>
  The JSON column \<open>Conversation.context\<close>: a dictionary read with \<open>.get(key, default)\<close>.
  A field is \<open>None\<close> when the key is absent. The column itself is nullable.
\<close>

record context_json =
  cj_history :: "history_entry list option"
  cj_previous_intents :: "string list option"
  cj_emotion_trend :: "string list option"
  cj_turn_count :: "int option"
  cj_unresolved_turns :: "int option"

record Conversation =
  conv_id :: string
  conv_customer_id :: string
  conv_channel :: string
  conv_language :: string
  conv_created_at :: datetime
  conv_updated_at :: datetime
  conv_context :: "context_json option"
  conv_is_escalated :: bool

text \<open>
  The table \<open>conversations\<close>, by its primary key \<open>id\<close>: \<open>db k\<close> is the row selected by
  \<open>Conversation.id == k\<close>. The operations below store a row under its own \<open>conv_id\<close>
  and never change that field.
\<close>

type_synonym store = "string \<rightharpoonup> Conversation"

text \<open>
  \<open>conv.context.get(key, default) if conv.context else default\<close>, and
  \<open>(conv.context or {}).get(key, default)\<close>: an absent column, an empty dictionary and
  an absent key all give the default.
\<close>

definition ctx_get :: "(context_json \<Rightarrow> 'a option) \<Rightarrow> 'a \<Rightarrow> Conversation \<Rightarrow> 'a" where
  "ctx_get field dflt conv =
     (case conv_context conv of
        None \<Rightarrow> dflt
      | Some cj \<Rightarrow> (case field cj of None \<Rightarrow> dflt | Some v \<Rightarrow> v))"

text \<open>Python truthiness of an optional string: \<open>None\<close> and \<open>""\<close> are falsy.\<close>

fun truthy :: "string option \<Rightarrow> bool" where
  "truthy None = False"
| "truthy (Some s) = (s \<noteq> [])"

text \<open>
  \<open>get_or_create\<close>. \<open>uuid\<close> is the value of \<open>str(uuid.uuid4())\<close> and \<open>now\<close> the value of
  the column default \<open>_utcnow()\<close>. Committing a row whose primary key is already in the
  table raises \<open>IntegrityError\<close>; that can only happen for a generated identifier.
\<close>

definition snapshot :: "Conversation \<Rightarrow> conversation_context" where
  "snapshot conv =
     \<lparr>conversation_id = conv_id conv,
      ctx_customer_id = conv_customer_id conv,
      ctx_channel = conv_channel conv,
      ctx_language = conv_language conv,
      history = ctx_get cj_history [] conv,
      previous_intents = ctx_get cj_previous_intents [] conv,
      emotion_trend = ctx_get cj_emotion_trend [] conv,
      is_escalated = conv_is_escalated conv,
      turn_count = ctx_get cj_turn_count 0 conv,
      unresolved_turns = ctx_get cj_unresolved_turns 0 conv\<rparr>"

definition new_conversation :: "string \<Rightarrow> string \<Rightarrow> string \<Rightarrow> datetime \<Rightarrow> Conversation" where
  "new_conversation new_id customer_id channel now =
     \<lparr>conv_id = new_id,
      conv_customer_id = customer_id,
      conv_channel = channel,
      conv_language = ''en'',
      conv_created_at = now,
      conv_updated_at = now,
      conv_context =
        Some \<lparr>cj_history = Some [], cj_previous_intents = Some [], cj_emotion_trend = Some [],
              cj_turn_count = Some 0, cj_unresolved_turns = Some 0\<rparr>,
      conv_is_escalated = False\<rparr>"

definition get_or_create ::
  "store \<Rightarrow> string option \<Rightarrow> string \<Rightarrow> string \<Rightarrow> string \<Rightarrow> datetime
     \<Rightarrow> raised + (store \<times> conversation_context \<times> log_event list)" where
  "get_or_create db cid customer_id channel uuid now =
     (case (if truthy cid then db (the cid) else None) of
        Some conv \<Rightarrow>
          Inr (db, snapshot conv,
               [Log Info ''context_loaded'' [(''conversation_id'', VStr (the cid))]])
      | None \<Rightarrow>
          (let new_id = (if truthy cid then the cid else uuid)
           in if db new_id \<noteq> None then Inl (Exception ''IntegrityError'')
              else Inr (db(new_id \<mapsto> new_conversation new_id customer_id channel now),
                        \<lparr>conversation_id = new_id,
                         ctx_customer_id = customer_id,
                         ctx_channel = channel,
                         ctx_language = ''en'',
                         history = [],
                         previous_intents = [],
                         emotion_trend = [],
                         is_escalated = False,
                         turn_count = 0,
                         unresolved_turns = 0\<rparr>,
                        [Log Info ''context_created'' [(''conversation_id'', VStr new_id)]])))"

text \<open>
  The dictionary \<open>response_data\<close> passed to \<open>update\<close>, read with \<open>.get(key, default)\<close>:
  a field is \<open>None\<close> when the key is absent.
\<close>

record response_data =
  rd_customer_message :: "string option"
  rd_response_text :: "string option"
  rd_intent :: "string option"
  rd_dominant_emotion :: "string option"
  rd_escalation_flag :: "bool option"
  rd_language :: "string option"

definition rd_get :: "'a option \<Rightarrow> 'a \<Rightarrow> 'a" where
  "rd_get v dflt = (case v of None \<Rightarrow> dflt | Some x \<Rightarrow> x)"

text \<open>The slice \<open>xs[-n:]\<close> for a positive \<open>n\<close>: the last \<open>n\<close> elements, or all of a shorter list.\<close>

definition slice_last :: "nat \<Rightarrow> 'a list \<Rightarrow> 'a list" where
  "slice_last n xs = drop (length xs - n) xs"

definition unresolved_like :: "string \<Rightarrow> bool" where
  "unresolved_like intent = (intent \<in> {''unknown'', ''unclear'', ''unresolved''})"

text \<open>
  The body of \<open>update\<close> for a row that exists. \<open>ts1\<close> and \<open>ts2\<close> are the two values of
  \<open>datetime.now(timezone.utc).isoformat()\<close>, \<open>now\<close> the value stored in \<open>updated_at\<close>.
\<close>

definition update_conversation ::
  "Conversation \<Rightarrow> response_data \<Rightarrow> string \<Rightarrow> string \<Rightarrow> datetime \<Rightarrow> Conversation" where
  "update_conversation conv rd ts1 ts2 now =
     (let history0 = ctx_get cj_history [] conv;
          history1 = history0 @ [\<lparr>role = ''customer'',
                                  text_of = rd_get (rd_customer_message rd) '''',
                                  timestamp = ts1\<rparr>];
          history2 = history1 @ [\<lparr>role = ''assistant'',
                                  text_of = rd_get (rd_response_text rd) '''',
                                  timestamp = ts2\<rparr>];
          previous_intents1 =
            ctx_get cj_previous_intents [] conv @ [rd_get (rd_intent rd) ''unknown''];
          emotion_trend1 =
            ctx_get cj_emotion_trend [] conv @ [rd_get (rd_dominant_emotion rd) ''neutral''];
          turn_count1 = ctx_get cj_turn_count 0 conv + 1;
          unresolved0 = ctx_get cj_unresolved_turns 0 conv;
          intent = rd_get (rd_intent rd) ''unknown'';
          unresolved1 = (if unresolved_like intent then unresolved0 + 1 else 0)
      in conv\<lparr>conv_context :=
                 Some \<lparr>cj_history = Some (slice_last 20 history2),
                       cj_previous_intents = Some (slice_last 10 previous_intents1),
                       cj_emotion_trend = Some (slice_last 10 emotion_trend1),
                       cj_turn_count = Some turn_count1,
                       cj_unresolved_turns = Some unresolved1\<rparr>,
               conv_language := rd_get (rd_language rd) (conv_language conv),
               conv_is_escalated := rd_get (rd_escalation_flag rd) False,
               conv_updated_at := now\<rparr>)"

text \<open>
  \<open>update\<close>: the new table and the log entry. A missing row logs a warning and returns.
\<close>

definition update ::
  "store \<Rightarrow> string \<Rightarrow> response_data \<Rightarrow> string \<Rightarrow> string \<Rightarrow> datetime
     \<Rightarrow> store \<times> log_event list" where
  "update db cid rd ts1 ts2 now =
     (case db cid of
        None \<Rightarrow>
          (db, [Log Warning ''context_update_miss'' [(''conversation_id'', VStr cid)]])
      | Some conv \<Rightarrow>
          (let conv1 = update_conversation conv rd ts1 ts2 now
           in (db(cid \<mapsto> conv1),
               [Log Info ''context_updated''
                  [(''conversation_id'', VStr cid),
                   (''turn'', VInt (ctx_get cj_turn_count 0 conv1))]])))"

section \<open>Agent contract (agents/base_agent.py)\<close>

text \<open>
  \<open>process\<close> is the agent's own logic, a parameter: it returns an output or raises.
  \<open>safe_process\<close> catches \<open>Exception\<close> and returns \<open>None\<close>; what \<open>except Exception\<close>
  does not match propagates to the caller. \<open>interaction_id\<close> is the value of
  \<open>getattr(input_data, "interaction_id", "N/A")\<close>.
\<close>

definition safe_process ::
  "string \<Rightarrow> ('i \<Rightarrow> string) \<Rightarrow> ('i \<Rightarrow> raised + 'o) \<Rightarrow> 'i
     \<Rightarrow> log_event list \<times> (raised + 'o option)" where
  "safe_process agent_name interaction_id_of process input_data =
     (let interaction_id = interaction_id_of input_data;
          started = Log Info ''agent_started''
                      [(''agent'', VStr agent_name), (''interaction_id'', VStr interaction_id)]
      in case process input_data of
           Inr result \<Rightarrow>
             ([started,
               Log Info ''agent_completed''
                 [(''agent'', VStr agent_name), (''interaction_id'', VStr interaction_id)]],
              Inr (Some result))
         | Inl (Exception e) \<Rightarrow>
             ([started,
               Log Error ''agent_failed'' [(''agent'', VStr agent_name), (''error'', VStr e)]],
              Inr None)
         | Inl (NonException e) \<Rightarrow> ([started], Inl (NonException e)))"

section \<open>Requests and agent inputs (api/schemas.py)\<close>

text \<open>A dictionary payload that the coordinator only passes on.\<close>

type_synonym py_dict = "(string \<times> string) list"

record CustomerRequest =
  req_conversation_id :: "string option"
  req_customer_id :: string
  req_account_id :: "string option"
  req_customer_message :: string
  req_channel :: ChannelType
  req_conversation_history :: "string list"
  req_customer_feedback :: "py_dict option"
  req_account_data :: "py_dict option"
  req_usage_logs :: "py_dict list option"

record OCSInput =
  ocs_in_interaction_id :: string
  ocs_in_customer_message :: string
  ocs_in_conversation_context :: conversation_context
  ocs_in_channel :: ChannelType
  ocs_in_language :: SupportedLanguage

record KFOInput =
  kfo_in_interaction_id :: string
  kfo_in_query_text :: string
  kfo_in_top_k :: int
  kfo_in_language :: SupportedLanguage

record EIAInput =
  eia_in_interaction_id :: string
  eia_in_conversation_text :: string
  eia_in_conversation_history :: "string list"

record PIRInput =
  pir_in_interaction_id :: string
  pir_in_account_id :: string
  pir_in_account_data :: py_dict
  pir_in_usage_logs :: "py_dict list"

text \<open>The dictionary \<open>interaction_log\<close> that the coordinator builds for the feedback agent.\<close>

record interaction_log =
  il_customer_message :: string
  il_response_text :: string
  il_intent :: string
  il_sentiment_score :: real
  il_history :: "history_entry list"
  il_feedback_history :: "py_dict list"
  il_past_interactions :: "py_dict list"

record FANInput =
  fan_in_interaction_id :: string
  fan_in_customer_feedback :: "py_dict option"
  fan_in_interaction_log :: interaction_log

record EscalationPayload =
  ep_interaction_id :: string
  ep_customer_id :: string
  ep_channel :: ChannelType
  ep_escalation_reason :: string
  ep_conversation_context :: conversation_context
  ep_summary :: string
  ep_timestamp :: string

section \<open>Pipeline coordinator (orchestrator/main.py)\<close>

text \<open>The \<open>process\<close> methods of the five agents, parameters of the coordinator.\<close>

record agents =
  ocs_process :: "OCSInput \<Rightarrow> raised + OCSOutput"
  kfo_process :: "KFOInput \<Rightarrow> raised + KFOOutput"
  eia_process :: "EIAInput \<Rightarrow> raised + EIAOutput"
  pir_process :: "PIRInput \<Rightarrow> raised + PIROutput"
  fan_process :: "FANInput \<Rightarrow> raised + FANOutput"

text \<open>What one request reads from the clock and the random generator.\<close>

record environment =
  env_interaction_id :: string
  env_timestamp :: string
  env_conversation_uuid :: string
  env_created_at :: datetime
  env_response_timestamp :: string
  env_history_ts1 :: string
  env_history_ts2 :: string
  env_updated_at :: datetime

text \<open>
  What \<open>run_pipeline\<close> leaves behind: the response it returns, the table, the input of
  the feedback agent's \<open>safe_process\<close> handed to \<open>background_tasks.add_task\<close> (not run
  here), the escalation payload when one is built, and the log.
\<close>

record pipeline_result =
  pr_response :: OrchestratorResponse
  pr_db :: store
  pr_background_task :: FANInput
  pr_escalation_payload :: "EscalationPayload option"
  pr_log :: "log_event list"

definition run_pipeline ::
  "py_format \<Rightarrow> escalation_config \<Rightarrow> agents \<Rightarrow> environment \<Rightarrow> store \<Rightarrow> CustomerRequest
     \<Rightarrow> raised + pipeline_result" where
  "run_pipeline fmt cfg ag env db request =
     (let interaction_id = env_interaction_id env;
          log_started =
            [Log Info ''pipeline_started''
               [(''interaction_id'', VStr interaction_id),
                (''customer_id'', VStr (req_customer_id request)),
                (''channel'', VStr (channel_value (req_channel request)))]]
      in
      bind_raised
        (get_or_create db (req_conversation_id request) (req_customer_id request)
           (channel_value (req_channel request)) (env_conversation_uuid env) (env_created_at env))
        (\<lambda>(db1, ctx, log_ctx).
      let cid = conversation_id ctx;
          ocs_input = \<lparr>ocs_in_interaction_id = interaction_id,
                       ocs_in_customer_message = req_customer_message request,
                       ocs_in_conversation_context = ctx,
                       ocs_in_channel = req_channel request,
                       ocs_in_language = EN\<rparr>;
          (lg_ocs, ocs_result) =
            safe_process ''OCS'' ocs_in_interaction_id (ocs_process ag) ocs_input
      in
      bind_raised ocs_result (\<lambda>ocs_output.
      let detected_language = (case ocs_output of Some ocs \<Rightarrow> ocs_language ocs | None \<Rightarrow> EN);
          query_text =
            (case ocs_output of
               Some ocs \<Rightarrow> ocs_intent ocs @ '' '' @ req_customer_message request
             | None \<Rightarrow> req_customer_message request);
          kfo_input = \<lparr>kfo_in_interaction_id = interaction_id,
                       kfo_in_query_text = query_text,
                       kfo_in_top_k = 5,
                       kfo_in_language = detected_language\<rparr>;
          (lg_kfo, kfo_result) =
            safe_process ''KFO'' kfo_in_interaction_id (kfo_process ag) kfo_input
      in
      bind_raised kfo_result (\<lambda>kfo_output.
      let eia_input = \<lparr>eia_in_interaction_id = interaction_id,
                       eia_in_conversation_text = req_customer_message request,
                       eia_in_conversation_history = req_conversation_history request\<rparr>;
          (lg_eia, eia_result) =
            safe_process ''EIA'' eia_in_interaction_id (eia_process ag) eia_input
      in
      bind_raised eia_result (\<lambda>eia_output.
      let (lg_pir, pir_result) =
            (if truthy (req_account_id request)
             then safe_process ''PIR'' pir_in_interaction_id (pir_process ag)
                    \<lparr>pir_in_interaction_id = interaction_id,
                     pir_in_account_id = the (req_account_id request),
                     pir_in_account_data =
                       (case req_account_data request of Some d \<Rightarrow> d | None \<Rightarrow> []),
                     pir_in_usage_logs =
                       (case req_usage_logs request of Some l \<Rightarrow> l | None \<Rightarrow> [])\<rparr>
             else ([], Inr None))
      in
      bind_raised pir_result (\<lambda>pir_output.
      let response =
            aggregate_outputs fmt cfg (env_response_timestamp env) interaction_id
              (req_customer_id request) (req_channel request) detected_language
              (req_customer_message request) ctx ocs_output kfo_output eia_output pir_output None;
          log_agg =
            [Log Info ''response_aggregated''
               [(''interaction_id'', VStr interaction_id),
                (''escalation_flag'', VBool (resp_escalation_flag response)),
                (''tone_recommendation'', VStr (tone_rec eia_output))]];
          (db2, log_update) =
            update db1 cid
              \<lparr>rd_customer_message = Some (req_customer_message request),
               rd_response_text = Some (resp_response_text response),
               rd_intent = Some (resp_intent response),
               rd_dominant_emotion = Some (resp_dominant_emotion response),
               rd_escalation_flag = Some (resp_escalation_flag response),
               rd_language = Some (language_value (resp_language response))\<rparr>
              (env_history_ts1 env) (env_history_ts2 env) (env_updated_at env);
          escalation_payload =
            (if resp_escalation_flag response
             then Some \<lparr>ep_interaction_id = interaction_id,
                        ep_customer_id = req_customer_id request,
                        ep_channel = req_channel request,
                        ep_escalation_reason =
                          (if truthy (resp_escalation_reason response)
                           then the (resp_escalation_reason response)
                           else ''Threshold exceeded''),
                        ep_conversation_context = ctx,
                        ep_summary = resp_response_text response,
                        ep_timestamp = env_timestamp env\<rparr>
             else None);
          log_escalation =
            (if resp_escalation_flag response
             then [Log Info ''escalation_triggered''
                     [(''interaction_id'', VStr interaction_id),
                      (''reason'', VStr (case resp_escalation_reason response of
                                           Some r \<Rightarrow> r | None \<Rightarrow> ''None''))]]
             else []);
          fan_input =
            \<lparr>fan_in_interaction_id = interaction_id,
             fan_in_customer_feedback = req_customer_feedback request,
             fan_in_interaction_log =
               \<lparr>il_customer_message = req_customer_message request,
                il_response_text = resp_response_text response,
                il_intent = resp_intent response,
                il_sentiment_score = resp_sentiment_score response,
                il_history = history ctx,
                il_feedback_history = [],
                il_past_interactions = []\<rparr>\<rparr>;
          log_completed =
            [Log Info ''pipeline_completed''
               [(''interaction_id'', VStr interaction_id),
                (''escalation'', VBool (resp_escalation_flag response))]]
      in Inr \<lparr>pr_response = response,
               pr_db = db2,
               pr_background_task = fan_input,
               pr_escalation_payload = escalation_payload,
               pr_log = log_started @ log_ctx @ lg_ocs @ lg_kfo @ lg_eia @ lg_pir
                        @ log_agg @ log_update @ log_escalation @ log_completed\<rparr>))))))"

section \<open>Rate limiter (api/middleware.py)\<close>






section \<open>Sequences of store operations\<close>

text \<open>
  The two operations of \<open>ContextManager\<close> with their arguments, and their effect on the
  table. A \<open>get_or_create\<close> that raises leaves the table as it was (nothing is committed).
\<close>

datatype store_op =
    GetOrCreate "string option" string string string datetime
  | Update string response_data string string datetime

fun apply_op :: "store \<Rightarrow> store_op \<Rightarrow> store" where
  "apply_op db (GetOrCreate cid customer_id channel uuid now) =
     (case get_or_create db cid customer_id channel uuid now of
        Inr (db1, ctx, lg) \<Rightarrow> db1
      | Inl e \<Rightarrow> db)"
| "apply_op db (Update cid rd ts1 ts2 now) = fst (update db cid rd ts1 ts2 now)"

definition run_ops :: "store \<Rightarrow> store_op list \<Rightarrow> store" where
  "run_ops db ops = foldl apply_op db ops"

text \<open>The caps of the three sequences and the sign of the two counters, for one row.\<close>

definition within_caps :: "Conversation \<Rightarrow> bool" where
  "within_caps conv =
     (length (ctx_get cj_history [] conv) \<le> 20
      \<and> length (ctx_get cj_previous_intents [] conv) \<le> 10
      \<and> length (ctx_get cj_emotion_trend [] conv) \<le> 10
      \<and> 0 \<le> ctx_get cj_turn_count 0 conv
      \<and> 0 \<le> ctx_get cj_unresolved_turns 0 conv)"

definition store_within_caps :: "store \<Rightarrow> bool" where
  "store_within_caps db = (\<forall>cid conv. db cid = Some conv \<longrightarrow> within_caps conv)"

section \<open>Sequences of requests through the rate limiter\<close>





section \<open>Agent failures as the specification words them\<close>

text \<open>
  An agent whose \<open>process\<close> raises nothing outside \<open>Exception\<close>, an agent whose
  \<open>process\<close> fails on every input (a forced provider failure), and the outcome that an
  isolated call leaves: the output, or absent.
\<close>

definition raises_only_exceptions :: "('i \<Rightarrow> raised + 'o) \<Rightarrow> bool" where
  "raises_only_exceptions process = (\<forall>x c. process x \<noteq> Inl (NonException c))"

definition always_fails :: "('i \<Rightarrow> raised + 'o) \<Rightarrow> bool" where
  "always_fails process = (\<forall>x. \<exists>e. process x = Inl (Exception e))"

definition outcome_of :: "('i \<Rightarrow> raised + 'o) \<Rightarrow> 'i \<Rightarrow> 'o option" where
  "outcome_of process x = (case process x of Inr result \<Rightarrow> Some result | Inl e \<Rightarrow> None)"

section \<open>Example inputs\<close>

text \<open>Concrete values on which the theorems below are instantiated.\<close>

definition example_format :: py_format where
  "example_format = \<lparr>fmt_2f = (\<lambda>_. ''x.xx''), str_float = (\<lambda>_. ''x.x''), str_int = (\<lambda>_. ''n'')\<rparr>"

definition example_context :: conversation_context where
  "example_context =
     \<lparr>conversation_id = ''conv-1'',
      ctx_customer_id = ''CUST-001'',
      ctx_channel = ''chat'',
      ctx_language = ''en'',
      history = [],
      previous_intents = [],
      emotion_trend = [],
      is_escalated = False,
      turn_count = 0,
      unresolved_turns = 0\<rparr>"

definition example_eia :: "string \<Rightarrow> EIAOutput" where
  "example_eia emotion =
     \<lparr>eia_sentiment_score = - 0.3,
      eia_dominant_emotion = emotion,
      eia_escalation_flag = False,
      eia_tone_recommendation = ''empathetic and understanding''\<rparr>"

definition example_rd :: "string \<Rightarrow> response_data" where
  "example_rd intent =
     \<lparr>rd_customer_message = Some ''Where is my order?'',
      rd_response_text = Some ''Let me check.'',
      rd_intent = Some intent,
      rd_dominant_emotion = Some ''anger'',
      rd_escalation_flag = Some False,
      rd_language = Some ''en''\<rparr>"

definition example_conversation :: Conversation where
  "example_conversation =
     \<lparr>conv_id = ''conv-1'',
      conv_customer_id = ''CUST-001'',
      conv_channel = ''chat'',
      conv_language = ''en'',
      conv_created_at = ''t0'',
      conv_updated_at = ''t0'',
      conv_context =
        Some \<lparr>cj_history = Some [], cj_previous_intents = Some [''unknown'', ''unclear''],
              cj_emotion_trend = Some [''neutral'', ''anger''],
              cj_turn_count = Some 2, cj_unresolved_turns = Some 2\<rparr>,
      conv_is_escalated = False\<rparr>"

definition example_db :: store where
  "example_db = [''conv-1'' \<mapsto> example_conversation]"

definition example_ops :: "store_op list" where
  "example_ops =
     [GetOrCreate (Some ''conv-1'') ''CUST-001'' ''chat'' ''uuid-1'' ''t0'',
      Update ''conv-1'' (example_rd ''unknown'') ''t1'' ''t2'' ''t3'',
      Update ''conv-1'' (example_rd ''billing'') ''t4'' ''t5'' ''t6'']"


definition example_request :: CustomerRequest where
  "example_request =
     \<lparr>req_conversation_id = None,
      req_customer_id = ''CUST-001'',
      req_account_id = Some ''ACC-1'',
      req_customer_message = ''Help'',
      req_channel = CHAT,
      req_conversation_history = [],
      req_customer_feedback = None,
      req_account_data = None,
      req_usage_logs = None\<rparr>"

definition example_env :: environment where
  "example_env =
     \<lparr>env_interaction_id = ''int-1'',
      env_timestamp = ''2026-01-01T00:00:00Z'',
      env_conversation_uuid = ''uuid-1'',
      env_created_at = ''t0'',
      env_response_timestamp = ''2026-01-01T00:00:01Z'',
      env_history_ts1 = ''t1'',
      env_history_ts2 = ''t2'',
      env_updated_at = ''t3''\<rparr>"

text \<open>Agents whose providers are all unavailable: every \<open>process\<close> raises an \<open>Exception\<close>.\<close>

definition failing_agents :: agents where
  "failing_agents =
     \<lparr>ocs_process = (\<lambda>_. Inl (Exception ''provider unavailable'')),
      kfo_process = (\<lambda>_. Inl (Exception ''provider unavailable'')),
      eia_process = (\<lambda>_. Inl (Exception ''provider unavailable'')),
      pir_process = (\<lambda>_. Inl (Exception ''provider unavailable'')),
      fan_process = (\<lambda>_. Inl (Exception ''provider unavailable''))\<rparr>"

text \<open>
  The same agents, except that the generator's \<open>process\<close> is cancelled:
  \<open>asyncio.CancelledError\<close> derives from \<open>BaseException\<close>, not from \<open>Exception\<close>.
\<close>

definition cancelled_agents :: agents where
  "cancelled_agents =
     failing_agents\<lparr>ocs_process := (\<lambda>_. Inl (NonException ''CancelledError''))\<rparr>"

definition example_ocs_input :: OCSInput where
  "example_ocs_input =
     \<lparr>ocs_in_interaction_id = ''int-1'',
      ocs_in_customer_message = ''Help'',
      ocs_in_conversation_context = example_context,
      ocs_in_channel = CHAT,
      ocs_in_language = EN\<rparr>"

section \<open>Properties of the escalation policy\<close>

lemma count_loop_takeWhile:
  "count_loop trig es n = n + int (length (takeWhile (\<lambda>e. e \<in> trig) es))"
  by (induction es arbitrary: n) auto

lemma consecutive_count_streak:
  "consecutive_count trig xs = int (trailing_streak trig xs)"
  by (simp add: consecutive_count_def trailing_streak_def count_loop_takeWhile)

lemma critical_alert_reasons_length:
  "length (critical_alert_reasons as) = one_if (\<exists>a \<in> set as. severity a = CRITICAL)"
  by (induction as) (auto simp: one_if_def)

lemma reasons_ocs_flag_length:
  "length (reasons_ocs_flag ocs_output) = one_if (fires_explicit_flag ocs_output)"
  by (cases ocs_output) (auto simp: reasons_ocs_flag_def fires_explicit_flag_def one_if_def)

lemma reasons_ocs_intent_length:
  "length (reasons_ocs_intent ocs_output) = one_if (fires_escalation_intent ocs_output)"
  by (cases ocs_output)
     (auto simp: reasons_ocs_intent_def fires_escalation_intent_def one_if_def)

lemma reasons_sentiment_length:
  "length (reasons_sentiment fmt cfg eia_output) = one_if (fires_sentiment cfg eia_output)"
  by (cases eia_output) (auto simp: reasons_sentiment_def fires_sentiment_def one_if_def)

lemma reasons_emotion_length:
  "length (reasons_emotion fmt cfg eia_output ctx) = one_if (fires_consecutive cfg eia_output ctx)"
  by (cases eia_output)
     (auto simp: reasons_emotion_def fires_consecutive_def one_if_def Let_def
        consecutive_count_streak)

lemma reasons_eia_flag_length:
  "length (reasons_eia_flag eia_output) = one_if (fires_eia_flag eia_output)"
  by (cases eia_output) (auto simp: reasons_eia_flag_def fires_eia_flag_def one_if_def)

lemma reasons_pir_length:
  "length (reasons_pir pir_output) = one_if (fires_critical_alert pir_output)"
proof (cases pir_output)
  case None
  then show ?thesis by (simp add: reasons_pir_def fires_critical_alert_def one_if_def)
next
  case (Some pir)
  then show ?thesis
    by (simp add: reasons_pir_def fires_critical_alert_def critical_alert_reasons_length)
qed

lemma reasons_unresolved_length:
  "length (reasons_unresolved fmt cfg ctx) = one_if (fires_unresolved cfg ctx)"
  by (auto simp: reasons_unresolved_def fires_unresolved_def one_if_def Let_def)

lemmas reasons_lengths =
  reasons_ocs_flag_length reasons_ocs_intent_length reasons_sentiment_length
  reasons_emotion_length reasons_eia_flag_length reasons_pir_length reasons_unresolved_length

lemma length_one_if_Nil: "length xs = one_if b \<Longrightarrow> (xs = []) = (\<not> b)"
  by (cases b) (auto simp: one_if_def)

lemma check_escalation_flag:
  "fst (check_escalation fmt cfg ocs_output eia_output pir_output ctx)
     = (escalation_reasons fmt cfg ocs_output eia_output pir_output ctx \<noteq> [])"
  by (simp add: check_escalation_def Let_def)

text \<open>
  Claim C1. For every combination of generator, sentiment and alert outcome and every
  conversation context, the reason list of the escalation evaluation is the concatenation,
  in the fixed order (explicit escalation flag, escalation-request intent, sentiment
  strictly below the threshold, consecutive trigger emotions, the sentiment agent's own
  flag, a critical-severity alert, unresolved turns at or above the maximum), of one block
  per check; each block holds exactly one reason when its check fires and none otherwise,
  so every firing check is recorded; and the evaluation returns escalate = true exactly
  when at least one of the seven checks fires.
\<close>

theorem check_escalation_records_every_firing_check:
  "escalation_reasons fmt cfg ocs_output eia_output pir_output ctx
     = reasons_ocs_flag ocs_output @ reasons_ocs_intent ocs_output
       @ reasons_sentiment fmt cfg eia_output @ reasons_emotion fmt cfg eia_output ctx
       @ reasons_eia_flag eia_output @ reasons_pir pir_output
       @ reasons_unresolved fmt cfg ctx
   \<and> length (reasons_ocs_flag ocs_output) = one_if (fires_explicit_flag ocs_output)
   \<and> length (reasons_ocs_intent ocs_output) = one_if (fires_escalation_intent ocs_output)
   \<and> length (reasons_sentiment fmt cfg eia_output) = one_if (fires_sentiment cfg eia_output)
   \<and> length (reasons_emotion fmt cfg eia_output ctx)
       = one_if (fires_consecutive cfg eia_output ctx)
   \<and> length (reasons_eia_flag eia_output) = one_if (fires_eia_flag eia_output)
   \<and> length (reasons_pir pir_output) = one_if (fires_critical_alert pir_output)
   \<and> length (reasons_unresolved fmt cfg ctx) = one_if (fires_unresolved cfg ctx)
   \<and> fst (check_escalation fmt cfg ocs_output eia_output pir_output ctx)
       = (fires_explicit_flag ocs_output \<or> fires_escalation_intent ocs_output
          \<or> fires_sentiment cfg eia_output \<or> fires_consecutive cfg eia_output ctx
          \<or> fires_eia_flag eia_output \<or> fires_critical_alert pir_output
          \<or> fires_unresolved cfg ctx)
   \<and> snd (check_escalation fmt cfg ocs_output eia_output pir_output ctx)
       = (if fst (check_escalation fmt cfg ocs_output eia_output pir_output ctx)
          then Some (join '' | '' (escalation_reasons fmt cfg ocs_output eia_output pir_output ctx))
          else None)"
proof -
  have order: "escalation_reasons fmt cfg ocs_output eia_output pir_output ctx
     = reasons_ocs_flag ocs_output @ reasons_ocs_intent ocs_output
       @ reasons_sentiment fmt cfg eia_output @ reasons_emotion fmt cfg eia_output ctx
       @ reasons_eia_flag eia_output @ reasons_pir pir_output
       @ reasons_unresolved fmt cfg ctx"
    by (simp add: escalation_reasons_def)
  have flag: "fst (check_escalation fmt cfg ocs_output eia_output pir_output ctx)
       = (fires_explicit_flag ocs_output \<or> fires_escalation_intent ocs_output
          \<or> fires_sentiment cfg eia_output \<or> fires_consecutive cfg eia_output ctx
          \<or> fires_eia_flag eia_output \<or> fires_critical_alert pir_output
          \<or> fires_unresolved cfg ctx)"
    unfolding check_escalation_flag order
    by (simp add: length_one_if_Nil [OF reasons_ocs_flag_length]
        length_one_if_Nil [OF reasons_ocs_intent_length]
        length_one_if_Nil [OF reasons_sentiment_length]
        length_one_if_Nil [OF reasons_emotion_length]
        length_one_if_Nil [OF reasons_eia_flag_length]
        length_one_if_Nil [OF reasons_pir_length]
        length_one_if_Nil [OF reasons_unresolved_length])
  have reason: "snd (check_escalation fmt cfg ocs_output eia_output pir_output ctx)
       = (if fst (check_escalation fmt cfg ocs_output eia_output pir_output ctx)
          then Some (join '' | '' (escalation_reasons fmt cfg ocs_output eia_output pir_output ctx))
          else None)"
    by (simp add: check_escalation_def Let_def)
  from order flag reason show ?thesis
    by (simp only: reasons_lengths simp_thms)
qed

lemma check_escalation_example:
  "fst (check_escalation example_format empty_config None
          (Some \<lparr>eia_sentiment_score = - 0.8, eia_dominant_emotion = ''anger'',
                 eia_escalation_flag = True, eia_tone_recommendation = ''highly empathetic''\<rparr>)
          None example_context)
   \<and> escalation_reasons example_format empty_config None
          (Some \<lparr>eia_sentiment_score = - 0.8, eia_dominant_emotion = ''anger'',
                 eia_escalation_flag = True, eia_tone_recommendation = ''highly empathetic''\<rparr>)
          None example_context
       = [''Sentiment score (x.xx) below threshold (x.x).'',
          ''Emotional Intelligence Agent triggered escalation.'']"
  by (simp add: check_escalation_def escalation_reasons_def reasons_ocs_flag_def
      reasons_ocs_intent_def reasons_sentiment_def reasons_emotion_def reasons_eia_flag_def
      reasons_pir_def reasons_unresolved_def example_format_def example_context_def
      empty_config_def sentiment_threshold_def trigger_emotions_def consecutive_required_def
      max_unresolved_def consecutive_count_def Let_def)

section \<open>The consecutive-emotion check\<close>

lemma trailing_streak_snoc:
  "trailing_streak trig (xs @ [e]) = (if e \<in> trig then Suc (trailing_streak trig xs) else 0)"
  by (simp add: trailing_streak_def)

lemma trailing_streak_Nil: "trailing_streak trig [] = 0"
  by (simp add: trailing_streak_def)

text \<open>
  The streak is at least \<open>n\<close> exactly when the sequence has \<open>n\<close> labels and its last
  \<open>n\<close> labels are all trigger emotions.
\<close>

lemma trailing_streak_ge_iff:
  "n \<le> trailing_streak trig xs
     \<longleftrightarrow> n \<le> length xs \<and> set (drop (length xs - n) xs) \<subseteq> trig"
proof (induction xs arbitrary: n rule: rev_induct)
  case Nil
  then show ?case by (simp add: trailing_streak_Nil)
next
  case (snoc e xs)
  show ?case
  proof (cases n)
    case 0
    then show ?thesis by simp
  next
    case (Suc m)
    have "drop (length (xs @ [e]) - n) (xs @ [e]) = drop (length xs - m) xs @ [e]"
      using Suc by simp
    then show ?thesis
      using Suc snoc.IH [of m] by (auto simp: trailing_streak_snoc)
  qed
qed

lemma reasons_emotion_fires:
  "(reasons_emotion fmt cfg (Some eia) ctx \<noteq> [])
     = (consecutive_required cfg
          \<le> int (trailing_streak (trigger_emotions cfg)
                   (emotion_trend ctx @ [eia_dominant_emotion eia])))"
  by (simp add: reasons_emotion_def Let_def consecutive_count_streak)

lemma reasons_emotion_in_escalation_reasons:
  "set (reasons_emotion fmt cfg eia_output ctx)
     \<subseteq> set (escalation_reasons fmt cfg ocs_output eia_output pir_output ctx)"
  by (auto simp: escalation_reasons_def)

lemma reasons_emotion_singleton:
  "reasons_emotion fmt cfg eia_output ctx \<noteq> []
     \<Longrightarrow> \<exists>r. reasons_emotion fmt cfg eia_output ctx = [r]"
  by (cases eia_output) (auto simp: reasons_emotion_def Let_def split: if_splits)

lemma trigger_pair_escalates:
  assumes n: "consecutive_required cfg = 2" and t: "emotion_trend ctx = trend @ [prev]"
    and p: "prev \<in> trigger_emotions cfg" and d: "eia_dominant_emotion eia \<in> trigger_emotions cfg"
  shows "fst (check_escalation fmt cfg ocs_output (Some eia) pir_output ctx)"
    and "\<exists>r. reasons_emotion fmt cfg (Some eia) ctx = [r]
           \<and> r \<in> set (escalation_reasons fmt cfg ocs_output (Some eia) pir_output ctx)"
proof -
  have "trailing_streak (trigger_emotions cfg) ((trend @ [prev]) @ [eia_dominant_emotion eia])
          = Suc (Suc (trailing_streak (trigger_emotions cfg) trend))"
    using p d by (simp only: trailing_streak_snoc if_True)
  then have fires: "reasons_emotion fmt cfg (Some eia) ctx \<noteq> []"
    unfolding reasons_emotion_fires using n t by simp
  then obtain r where r: "reasons_emotion fmt cfg (Some eia) ctx = [r]"
    using reasons_emotion_singleton by blast
  have "r \<in> set (escalation_reasons fmt cfg ocs_output (Some eia) pir_output ctx)"
    using r reasons_emotion_in_escalation_reasons [of fmt cfg "Some eia" ctx ocs_output pir_output]
    by simp
  then show "fst (check_escalation fmt cfg ocs_output (Some eia) pir_output ctx)"
    and "\<exists>r. reasons_emotion fmt cfg (Some eia) ctx = [r]
           \<and> r \<in> set (escalation_reasons fmt cfg ocs_output (Some eia) pir_output ctx)"
    using r by (auto simp: check_escalation_flag)
qed

lemma emotion_trend_after_update:
  "emotion_trend (snapshot (update_conversation conv rd ts1 ts2 now))
     = drop (Suc (length (emotion_trend (snapshot conv))) - 10) (emotion_trend (snapshot conv))
       @ [rd_get (rd_dominant_emotion rd) ''neutral'']"
  by (simp add: snapshot_def update_conversation_def ctx_get_def Let_def slice_last_def)

text \<open>
  The sentiment agent's own policy runs the same check on
  \<open>emotion_history + [dominant_emotion]\<close>: it gives one reason for a score below the
  threshold and one for a streak of at least the configured length.
\<close>

lemma policy_reasons_length:
  "length (policy_reasons fmt config sentiment_score dominant_emotion emotion_history)
     = one_if (sentiment_score < sentiment_threshold config)
       + one_if (consecutive_required config
                   \<le> int (trailing_streak (trigger_emotions config)
                            (emotion_history @ [dominant_emotion])))"
  by (simp add: policy_reasons_def Let_def one_if_def consecutive_count_streak)

lemma policy_check_escalation_flag:
  "fst (policy_check_escalation fmt config sentiment_score dominant_emotion emotion_history)
     = (sentiment_score < sentiment_threshold config
        \<or> consecutive_required config
             \<le> int (trailing_streak (trigger_emotions config)
                      (emotion_history @ [dominant_emotion])))"
  by (simp add: policy_check_escalation_def policy_reasons_def Let_def consecutive_count_streak)

text \<open>
  Claim C3. With the sentiment outcome present, the consecutive-emotion check contributes
  a reason exactly when the streak of trigger emotions at the end of
  \<open>emotion_trend + [dominant emotion]\<close>, counted backward until the first label outside
  the trigger set, is at least the configured number of turns. With that number at its
  default 2: when the previous turn's emotion and the current dominant emotion are both
  trigger emotions, the evaluation escalates and the reason list holds the
  consecutive-emotion reason; when there is no previous turn, or the previous turn's
  emotion is not a trigger emotion, the check contributes no reason. Two turns in a row:
  when a turn with a trigger emotion has been stored by \<open>update\<close> and the next turn's
  dominant emotion is a trigger emotion too, the evaluation on the stored context
  escalates.
\<close>

theorem consecutive_emotion_check:
  "((reasons_emotion fmt cfg (Some eia) ctx \<noteq> [])
      = (consecutive_required cfg
           \<le> int (trailing_streak (trigger_emotions cfg)
                    (emotion_trend ctx @ [eia_dominant_emotion eia]))))
   \<and> (consecutive_required cfg = 2 \<longrightarrow> emotion_trend ctx = trend @ [prev]
        \<longrightarrow> prev \<in> trigger_emotions cfg \<longrightarrow> eia_dominant_emotion eia \<in> trigger_emotions cfg
        \<longrightarrow> fst (check_escalation fmt cfg ocs_output (Some eia) pir_output ctx)
            \<and> (\<exists>r. reasons_emotion fmt cfg (Some eia) ctx = [r]
                 \<and> r \<in> set (escalation_reasons fmt cfg ocs_output (Some eia) pir_output ctx)))
   \<and> (consecutive_required cfg = 2
        \<longrightarrow> (emotion_trend ctx = [] \<or> last (emotion_trend ctx) \<notin> trigger_emotions cfg)
        \<longrightarrow> reasons_emotion fmt cfg (Some eia) ctx = [])
   \<and> (consecutive_required cfg = 2
        \<longrightarrow> rd_get (rd_dominant_emotion rd) ''neutral'' \<in> trigger_emotions cfg
        \<longrightarrow> eia_dominant_emotion eia \<in> trigger_emotions cfg
        \<longrightarrow> fst (check_escalation fmt cfg ocs_output (Some eia) pir_output
                   (snapshot (update_conversation conv rd ts1 ts2 now))))"
proof (intro conjI impI)
  assume "consecutive_required cfg = 2"
    and "rd_get (rd_dominant_emotion rd) ''neutral'' \<in> trigger_emotions cfg"
    and "eia_dominant_emotion eia \<in> trigger_emotions cfg"
  then show "fst (check_escalation fmt cfg ocs_output (Some eia) pir_output
                   (snapshot (update_conversation conv rd ts1 ts2 now)))"
    using emotion_trend_after_update [of conv rd ts1 ts2 now]
    by (intro trigger_pair_escalates(1)) auto
next
  show "(reasons_emotion fmt cfg (Some eia) ctx \<noteq> [])
      = (consecutive_required cfg
           \<le> int (trailing_streak (trigger_emotions cfg)
                    (emotion_trend ctx @ [eia_dominant_emotion eia])))"
    by (rule reasons_emotion_fires)
next
  assume "consecutive_required cfg = 2" and "emotion_trend ctx = trend @ [prev]"
    and "prev \<in> trigger_emotions cfg" and "eia_dominant_emotion eia \<in> trigger_emotions cfg"
  then show "fst (check_escalation fmt cfg ocs_output (Some eia) pir_output ctx)"
    and "\<exists>r. reasons_emotion fmt cfg (Some eia) ctx = [r]
           \<and> r \<in> set (escalation_reasons fmt cfg ocs_output (Some eia) pir_output ctx)"
    by (rule trigger_pair_escalates)+
next
  assume n: "consecutive_required cfg = 2"
    and alone: "emotion_trend ctx = [] \<or> last (emotion_trend ctx) \<notin> trigger_emotions cfg"
  have "trailing_streak (trigger_emotions cfg) (emotion_trend ctx) = 0"
  proof (cases "emotion_trend ctx" rule: rev_cases)
    case Nil
    then show ?thesis by (simp add: trailing_streak_Nil)
  next
    case (snoc ys y)
    then show ?thesis using alone by (simp add: trailing_streak_snoc)
  qed
  then have "\<not> consecutive_required cfg
           \<le> int (trailing_streak (trigger_emotions cfg)
                    (emotion_trend ctx @ [eia_dominant_emotion eia]))"
    using n by (simp add: trailing_streak_snoc)
  then show "reasons_emotion fmt cfg (Some eia) ctx = []"
    using reasons_emotion_fires [of fmt cfg eia ctx] by blast
qed

theorem consecutive_emotion_check_witness:
  "fst (check_escalation example_format empty_config None (Some (example_eia ''distress'')) None
          (example_context\<lparr>emotion_trend := [''joy'', ''anger'']\<rparr>))
   \<and> reasons_emotion example_format empty_config (Some (example_eia ''distress''))
        (example_context\<lparr>emotion_trend := [''joy'', ''anger'']\<rparr>)
       = [''Dominant emotion (distress) persisted for n consecutive turns.'']
   \<and> reasons_emotion example_format empty_config (Some (example_eia ''anger''))
        (example_context\<lparr>emotion_trend := [''anger'', ''joy'']\<rparr>) = []
   \<and> reasons_emotion example_format empty_config (Some (example_eia ''anger''))
        example_context = []
   \<and> fst (check_escalation example_format empty_config None (Some (example_eia ''distress'')) None
          (snapshot (update_conversation example_conversation (example_rd ''billing'')
                       ''t1'' ''t2'' ''t3'')))"
proof -
  have cfg: "consecutive_required empty_config = 2"
    "trigger_emotions empty_config = {''anger'', ''distress''}"
    by (simp_all add: consecutive_required_def trigger_emotions_def empty_config_def)
  have two: "fst (check_escalation example_format empty_config None
                   (Some (example_eia ''distress'')) None
                   (example_context\<lparr>emotion_trend := [''joy'', ''anger'']\<rparr>))
     \<and> fst (check_escalation example_format empty_config None (Some (example_eia ''distress'')) None
          (snapshot (update_conversation example_conversation (example_rd ''billing'')
                       ''t1'' ''t2'' ''t3'')))"
    using consecutive_emotion_check [of example_format empty_config "example_eia ''distress''"
        "example_context\<lparr>emotion_trend := [''joy'', ''anger'']\<rparr>" "[''joy'']" "''anger''" None None
        "example_rd ''billing''" example_conversation "''t1''" "''t2''" "''t3''"]
    by (simp add: cfg example_eia_def example_rd_def rd_get_def)
  have reason: "reasons_emotion example_format empty_config (Some (example_eia ''distress''))
        (example_context\<lparr>emotion_trend := [''joy'', ''anger'']\<rparr>)
       = [''Dominant emotion (distress) persisted for n consecutive turns.'']"
    by (simp add: reasons_emotion_def cfg consecutive_count_def example_eia_def
        example_format_def example_context_def Let_def)
  have broken: "reasons_emotion example_format empty_config (Some (example_eia ''anger''))
        (example_context\<lparr>emotion_trend := [''anger'', ''joy'']\<rparr>) = []"
    using consecutive_emotion_check [of example_format empty_config "example_eia ''anger''"
        "example_context\<lparr>emotion_trend := [''anger'', ''joy'']\<rparr>" "[]" "''joy''" None None
        "example_rd ''billing''" example_conversation "''t1''" "''t2''" "''t3''"]
    by (simp add: cfg)
  have alone: "reasons_emotion example_format empty_config (Some (example_eia ''anger''))
        example_context = []"
    using consecutive_emotion_check [of example_format empty_config "example_eia ''anger''"
        example_context "[]" "''joy''" None None
        "example_rd ''billing''" example_conversation "''t1''" "''t2''" "''t3''"]
    by (simp add: cfg example_context_def)
  from two reason broken alone show ?thesis by simp
qed

section \<open>Aggregation\<close>

lemma aggregate_outputs_flag:
  "resp_escalation_flag
     (aggregate_outputs fmt cfg now iid cust ch lang msg ctx ocs_output kfo_output eia_output
        pir_output fan_output)
   = fst (check_escalation fmt cfg ocs_output eia_output pir_output ctx)"
  by (simp add: aggregate_outputs_def split_beta)

lemma aggregate_outputs_reason:
  "resp_escalation_reason
     (aggregate_outputs fmt cfg now iid cust ch lang msg ctx ocs_output kfo_output eia_output
        pir_output fan_output)
   = snd (check_escalation fmt cfg ocs_output eia_output pir_output ctx)"
  by (simp add: aggregate_outputs_def split_beta)

lemma escalation_reasons_all_absent:
  "escalation_reasons fmt cfg None None None ctx = reasons_unresolved fmt cfg ctx"
  by (simp add: escalation_reasons_def reasons_ocs_flag_def reasons_ocs_intent_def
      reasons_sentiment_def reasons_emotion_def reasons_eia_flag_def reasons_pir_def)

lemma check_escalation_all_absent:
  "fst (check_escalation fmt cfg None None None ctx) = (max_unresolved cfg \<le> unresolved_turns ctx)"
  by (simp add: check_escalation_flag escalation_reasons_all_absent reasons_unresolved_def Let_def)

text \<open>
  Claim C6. With all five agent outcomes absent, aggregation returns a response with
  response text \<open>""\<close>, intent \<open>"unknown"\<close>, sentiment score 0.0, dominant emotion
  \<open>"neutral"\<close>, no suggested articles and no alerts; its escalation flag is decided by
  the conversation context alone (unresolved turns at or above the maximum) and its
  escalation reason is the unresolved-turns reason or absent; with 3 unresolved turns and
  the default maximum the response escalates.
\<close>

theorem aggregate_outputs_all_absent:
  "(let r = aggregate_outputs fmt cfg now iid cust ch lang msg ctx None None None None None
    in resp_response_text r = ''''
       \<and> resp_intent r = ''unknown''
       \<and> resp_sentiment_score r = 0
       \<and> resp_dominant_emotion r = ''neutral''
       \<and> resp_suggested_faq_articles r = []
       \<and> resp_proactive_alerts r = []
       \<and> resp_interaction_id r = iid \<and> resp_customer_id r = cust \<and> resp_channel r = ch
       \<and> resp_language r = lang \<and> resp_timestamp r = now
       \<and> resp_feedback_analysis r = FeedbackAnalysis_default
       \<and> resp_escalation_flag r = (max_unresolved cfg \<le> unresolved_turns ctx)
       \<and> resp_escalation_reason r
           = (if max_unresolved cfg \<le> unresolved_turns ctx
              then Some (join '' | '' (reasons_unresolved fmt cfg ctx)) else None))
   \<and> resp_escalation_flag
        (aggregate_outputs fmt (cfg\<lparr>cfg_max_unresolved_turns := None\<rparr>) now iid cust ch lang msg
           (ctx\<lparr>unresolved_turns := 3\<rparr>) None None None None None)"
proof -
  have fields: "resp_response_text
        (aggregate_outputs fmt cfg now iid cust ch lang msg ctx None None None None None) = ''''
     \<and> resp_intent
        (aggregate_outputs fmt cfg now iid cust ch lang msg ctx None None None None None)
         = ''unknown''
     \<and> resp_sentiment_score
        (aggregate_outputs fmt cfg now iid cust ch lang msg ctx None None None None None) = 0
     \<and> resp_dominant_emotion
        (aggregate_outputs fmt cfg now iid cust ch lang msg ctx None None None None None)
         = ''neutral''
     \<and> resp_suggested_faq_articles
        (aggregate_outputs fmt cfg now iid cust ch lang msg ctx None None None None None) = []
     \<and> resp_proactive_alerts
        (aggregate_outputs fmt cfg now iid cust ch lang msg ctx None None None None None) = []
     \<and> resp_interaction_id
        (aggregate_outputs fmt cfg now iid cust ch lang msg ctx None None None None None) = iid
     \<and> resp_customer_id
        (aggregate_outputs fmt cfg now iid cust ch lang msg ctx None None None None None) = cust
     \<and> resp_channel
        (aggregate_outputs fmt cfg now iid cust ch lang msg ctx None None None None None) = ch
     \<and> resp_language
        (aggregate_outputs fmt cfg now iid cust ch lang msg ctx None None None None None) = lang
     \<and> resp_timestamp
        (aggregate_outputs fmt cfg now iid cust ch lang msg ctx None None None None None) = now
     \<and> resp_feedback_analysis
        (aggregate_outputs fmt cfg now iid cust ch lang msg ctx None None None None None)
         = FeedbackAnalysis_default"
    by (simp add: aggregate_outputs_def split_beta)
  have reason: "snd (check_escalation fmt cfg None None None ctx)
       = (if max_unresolved cfg \<le> unresolved_turns ctx
          then Some (join '' | '' (reasons_unresolved fmt cfg ctx)) else None)"
    by (simp add: check_escalation_def escalation_reasons_all_absent reasons_unresolved_def
        Let_def)
  have three: "fst (check_escalation fmt (cfg\<lparr>cfg_max_unresolved_turns := None\<rparr>) None None None
                     (ctx\<lparr>unresolved_turns := 3\<rparr>))"
    by (simp add: check_escalation_all_absent max_unresolved_def)
  show ?thesis
    unfolding Let_def aggregate_outputs_flag aggregate_outputs_reason
    using fields reason three by (simp add: check_escalation_all_absent)
qed

text \<open>
  Claim C10, as amended. In every aggregated response the per-agent outcome log records,
  for each of the generator, knowledge-search, sentiment and anomaly-scan roles, the
  agent's serialized output when its outcome is present and the marker \<open>"skipped"\<close> when
  it is absent; for the feedback-analyze role it records the serialized output when
  present and the marker \<open>"pending_async"\<close> when absent.
\<close>

theorem agent_logs_record_outcomes:
  "(let logs = resp_agent_logs
                 (aggregate_outputs fmt cfg now iid cust ch lang msg ctx ocs_output kfo_output
                    eia_output pir_output fan_output)
    in log_ocs logs = (case ocs_output of Some out \<Rightarrow> ModelDump out | None \<Rightarrow> Status ''skipped'')
       \<and> log_kfo logs = (case kfo_output of Some out \<Rightarrow> ModelDump out | None \<Rightarrow> Status ''skipped'')
       \<and> log_eia logs = (case eia_output of Some out \<Rightarrow> ModelDump out | None \<Rightarrow> Status ''skipped'')
       \<and> log_pir logs = (case pir_output of Some out \<Rightarrow> ModelDump out | None \<Rightarrow> Status ''skipped'')
       \<and> log_fan logs
           = (case fan_output of Some out \<Rightarrow> ModelDump out | None \<Rightarrow> Status ''pending_async''))"
  by (simp add: aggregate_outputs_def split_beta)

text \<open>
  The claim as stated fails for the feedback-analyze role: with its outcome absent the
  log entry is \<open>{"status": "pending_async"}\<close>, not \<open>{"status": "skipped"}\<close>.
\<close>

theorem agent_logs_fan_absent_not_skipped:
  "log_fan (resp_agent_logs
      (aggregate_outputs example_format empty_config ''2026-01-01T00:00:00Z'' ''int-1''
         ''CUST-001'' CHAT EN ''Help'' example_context None None None None None))
     = Status ''pending_async''
   \<and> log_fan (resp_agent_logs
      (aggregate_outputs example_format empty_config ''2026-01-01T00:00:00Z'' ''int-1''
         ''CUST-001'' CHAT EN ''Help'' example_context None None None None None))
     \<noteq> Status ''skipped''"
  by (simp add: aggregate_outputs_def split_beta)

section \<open>Conversation store\<close>

lemma length_slice_last: "length (slice_last n xs) = min n (length xs)"
  by (simp add: slice_last_def)

lemma suffix_slice_last: "suffix (slice_last n xs) xs"
  by (simp add: slice_last_def suffix_drop)

lemma slice_last_short: "length xs \<le> n \<Longrightarrow> slice_last n xs = xs"
  by (simp add: slice_last_def)

lemma update_existing:
  "db cid = Some conv
     \<Longrightarrow> fst (update db cid rd ts1 ts2 now) = db(cid \<mapsto> update_conversation conv rd ts1 ts2 now)"
  by (simp add: update_def Let_def)

lemma update_missing: "db cid = None \<Longrightarrow> fst (update db cid rd ts1 ts2 now) = db"
  by (simp add: update_def)

lemma ctx_get_update_conversation:
  "ctx_get cj_history [] (update_conversation conv rd ts1 ts2 now)
     = slice_last 20
         (ctx_get cj_history [] conv
          @ [\<lparr>role = ''customer'', text_of = rd_get (rd_customer_message rd) '''',
               timestamp = ts1\<rparr>,
             \<lparr>role = ''assistant'', text_of = rd_get (rd_response_text rd) '''',
               timestamp = ts2\<rparr>])"
  "ctx_get cj_previous_intents [] (update_conversation conv rd ts1 ts2 now)
     = slice_last 10 (ctx_get cj_previous_intents [] conv @ [rd_get (rd_intent rd) ''unknown''])"
  "ctx_get cj_emotion_trend [] (update_conversation conv rd ts1 ts2 now)
     = slice_last 10
         (ctx_get cj_emotion_trend [] conv @ [rd_get (rd_dominant_emotion rd) ''neutral''])"
  "ctx_get cj_turn_count 0 (update_conversation conv rd ts1 ts2 now)
     = ctx_get cj_turn_count 0 conv + 1"
  "ctx_get cj_unresolved_turns 0 (update_conversation conv rd ts1 ts2 now)
     = (if unresolved_like (rd_get (rd_intent rd) ''unknown'')
        then ctx_get cj_unresolved_turns 0 conv + 1 else 0)"
  by (simp_all add: update_conversation_def ctx_get_def Let_def)

lemma update_conversation_fields:
  "conv_id (update_conversation conv rd ts1 ts2 now) = conv_id conv"
  "conv_customer_id (update_conversation conv rd ts1 ts2 now) = conv_customer_id conv"
  "conv_channel (update_conversation conv rd ts1 ts2 now) = conv_channel conv"
  "conv_language (update_conversation conv rd ts1 ts2 now)
     = rd_get (rd_language rd) (conv_language conv)"
  "conv_is_escalated (update_conversation conv rd ts1 ts2 now)
     = rd_get (rd_escalation_flag rd) False"
  by (simp_all add: update_conversation_def Let_def)

lemma within_caps_update_conversation:
  assumes "0 \<le> ctx_get cj_turn_count 0 conv" and "0 \<le> ctx_get cj_unresolved_turns 0 conv"
  shows "within_caps (update_conversation conv rd ts1 ts2 now)"
  using assms by (simp add: within_caps_def ctx_get_update_conversation length_slice_last)

lemma within_caps_new_conversation: "within_caps (new_conversation new_id customer_id channel now)"
  by (simp add: within_caps_def new_conversation_def ctx_get_def)

lemma store_within_caps_update:
  assumes "store_within_caps db"
  shows "store_within_caps (fst (update db cid rd ts1 ts2 now))"
proof (cases "db cid")
  case None
  then show ?thesis using assms by (simp add: update_missing)
next
  case (Some conv)
  then have "within_caps conv" using assms by (simp add: store_within_caps_def)
  then have "0 \<le> ctx_get cj_turn_count 0 conv" and "0 \<le> ctx_get cj_unresolved_turns 0 conv"
    by (simp_all add: within_caps_def)
  then have "within_caps (update_conversation conv rd ts1 ts2 now)"
    by (rule within_caps_update_conversation)
  then show ?thesis
    using assms Some by (simp add: update_existing store_within_caps_def)
qed

lemma get_or_create_cases:
  "get_or_create db cid customer_id channel uuid now = Inr (db1, ctx, lg)
     \<Longrightarrow> db1 = db
         \<or> (\<exists>new_id. db new_id = None
               \<and> db1 = db(new_id \<mapsto> new_conversation new_id customer_id channel now))"
  by (auto simp: get_or_create_def Let_def split: option.splits if_splits)

lemma store_within_caps_apply_op:
  assumes "store_within_caps db"
  shows "store_within_caps (apply_op db op)"
proof (cases op)
  case (GetOrCreate cid customer_id channel uuid now)
  show ?thesis
  proof (cases "get_or_create db cid customer_id channel uuid now")
    case (Inl e)
    then show ?thesis using assms GetOrCreate by simp
  next
    case (Inr res)
    obtain db1 ctx lg where res: "res = (db1, ctx, lg)" by (cases res) auto
    from get_or_create_cases [OF Inr [unfolded res]] assms
    have "store_within_caps db1"
      by (auto simp: store_within_caps_def within_caps_new_conversation split: if_splits)
    then show ?thesis using GetOrCreate Inr res by simp
  qed
next
  case (Update cid rd ts1 ts2 now)
  then show ?thesis using assms by (simp add: store_within_caps_update)
qed

lemma store_within_caps_run_ops:
  "store_within_caps db \<Longrightarrow> store_within_caps (run_ops db ops)"
  unfolding run_ops_def
  by (induction ops arbitrary: db) (simp_all add: store_within_caps_apply_op)

text \<open>
  Claim C5. For every \<open>update\<close> call on an existing conversation, the stored
  \<open>unresolved_turns\<close> becomes the previous value plus exactly 1 when the turn's resolved
  intent is one of unknown, unclear, unresolved, and exactly 0 for any other intent.
  The statement holds for every table and every previous value, hence along every
  sequence of turns.
\<close>

theorem update_unresolved_turns:
  assumes "db cid = Some conv"
  shows "\<exists>conv1. fst (update db cid rd ts1 ts2 now) cid = Some conv1
           \<and> unresolved_turns (snapshot conv1)
               = (if rd_get (rd_intent rd) ''unknown'' \<in> {''unknown'', ''unclear'', ''unresolved''}
                  then unresolved_turns (snapshot conv) + 1 else 0)"
  using assms
  by (simp add: update_existing snapshot_def ctx_get_update_conversation unresolved_like_def)

text \<open>
  Claim C9. An \<open>update\<close> for a conversation identifier with no row logs the miss (one
  warning \<open>context_update_miss\<close>), returns normally, and leaves the table, so every stored
  conversation, unchanged.
\<close>

theorem update_missing_is_noop:
  assumes "db cid = None"
  shows "update db cid rd ts1 ts2 now
           = (db, [Log Warning ''context_update_miss'' [(''conversation_id'', VStr cid)]])"
  using assms by (simp add: update_def)

theorem update_unresolved_turns_witness:
  "example_db ''conv-1'' = Some example_conversation
   \<and> unresolved_turns (snapshot example_conversation) = 2
   \<and> (\<exists>conv1. fst (update example_db ''conv-1'' (example_rd ''unknown'') ''t1'' ''t2'' ''t3'')
                  ''conv-1'' = Some conv1
         \<and> unresolved_turns (snapshot conv1) = 3)
   \<and> (\<exists>conv1. fst (update example_db ''conv-1'' (example_rd ''billing'') ''t1'' ''t2'' ''t3'')
                  ''conv-1'' = Some conv1
         \<and> unresolved_turns (snapshot conv1) = 0)"
proof -
  have row: "example_db ''conv-1'' = Some example_conversation"
    by (simp add: example_db_def)
  have before: "unresolved_turns (snapshot example_conversation) = 2"
    by (simp add: snapshot_def ctx_get_def example_conversation_def)
  show ?thesis
    using update_unresolved_turns [of example_db "''conv-1''" example_conversation
        "example_rd ''unknown''" "''t1''" "''t2''" "''t3''"]
      update_unresolved_turns [of example_db "''conv-1''" example_conversation
        "example_rd ''billing''" "''t1''" "''t2''" "''t3''"]
      row before
    by (simp add: example_rd_def rd_get_def)
qed

theorem update_missing_is_noop_witness:
  "example_db ''conv-9'' = None
   \<and> update example_db ''conv-9'' (example_rd ''unknown'') ''t1'' ''t2'' ''t3''
       = (example_db, [Log Warning ''context_update_miss'' [(''conversation_id'', VStr ''conv-9'')]])"
proof -
  have miss: "example_db ''conv-9'' = None"
    by (simp add: example_db_def)
  show ?thesis
    using update_missing_is_noop [of example_db "''conv-9''" "example_rd ''unknown''"
        "''t1''" "''t2''" "''t3''"] miss
    by simp
qed

text \<open>
  Claim C4. Every table reached by any sequence of \<open>get_or_create\<close> and \<open>update\<close> calls
  (from the empty table, or from any table whose rows are within the caps) holds in every
  row at most 20 history entries, at most 10 previous intents, at most 10 emotion labels,
  and counters \<open>turn_count\<close> and \<open>unresolved_turns\<close> that are not negative. Every update
  of an existing row keeps the order: each new sequence is the old one with the new
  entries appended at the tail, cut to its last 20 (or 10) elements, hence a suffix of
  that extended sequence.
\<close>

theorem capped_sequences_invariant:
  "(store_within_caps db \<longrightarrow> store_within_caps (run_ops db ops))
   \<and> store_within_caps (run_ops Map.empty ops)
   \<and> (db cid = Some conv \<longrightarrow>
        (\<exists>conv1. fst (update db cid rd ts1 ts2 now) cid = Some conv1
           \<and> history (snapshot conv1)
               = slice_last 20
                   (history (snapshot conv)
                    @ [\<lparr>role = ''customer'', text_of = rd_get (rd_customer_message rd) '''',
                         timestamp = ts1\<rparr>,
                       \<lparr>role = ''assistant'', text_of = rd_get (rd_response_text rd) '''',
                         timestamp = ts2\<rparr>])
           \<and> suffix (history (snapshot conv1))
                   (history (snapshot conv)
                    @ [\<lparr>role = ''customer'', text_of = rd_get (rd_customer_message rd) '''',
                         timestamp = ts1\<rparr>,
                       \<lparr>role = ''assistant'', text_of = rd_get (rd_response_text rd) '''',
                         timestamp = ts2\<rparr>])
           \<and> length (history (snapshot conv1)) = min 20 (length (history (snapshot conv)) + 2)
           \<and> previous_intents (snapshot conv1)
               = slice_last 10 (previous_intents (snapshot conv) @ [rd_get (rd_intent rd) ''unknown''])
           \<and> suffix (previous_intents (snapshot conv1))
                   (previous_intents (snapshot conv) @ [rd_get (rd_intent rd) ''unknown''])
           \<and> length (previous_intents (snapshot conv1))
               = min 10 (length (previous_intents (snapshot conv)) + 1)
           \<and> emotion_trend (snapshot conv1)
               = slice_last 10
                   (emotion_trend (snapshot conv) @ [rd_get (rd_dominant_emotion rd) ''neutral''])
           \<and> suffix (emotion_trend (snapshot conv1))
                   (emotion_trend (snapshot conv) @ [rd_get (rd_dominant_emotion rd) ''neutral''])
           \<and> length (emotion_trend (snapshot conv1))
               = min 10 (length (emotion_trend (snapshot conv)) + 1)
           \<and> turn_count (snapshot conv1) = turn_count (snapshot conv) + 1))"
proof (intro conjI impI)
  assume "store_within_caps db"
  then show "store_within_caps (run_ops db ops)"
    by (rule store_within_caps_run_ops)
next
  have "store_within_caps Map.empty"
    by (simp add: store_within_caps_def)
  then show "store_within_caps (run_ops Map.empty ops)"
    by (rule store_within_caps_run_ops)
next
  assume row: "db cid = Some conv"
  show "\<exists>conv1. fst (update db cid rd ts1 ts2 now) cid = Some conv1
           \<and> history (snapshot conv1)
               = slice_last 20
                   (history (snapshot conv)
                    @ [\<lparr>role = ''customer'', text_of = rd_get (rd_customer_message rd) '''',
                         timestamp = ts1\<rparr>,
                       \<lparr>role = ''assistant'', text_of = rd_get (rd_response_text rd) '''',
                         timestamp = ts2\<rparr>])
           \<and> suffix (history (snapshot conv1))
                   (history (snapshot conv)
                    @ [\<lparr>role = ''customer'', text_of = rd_get (rd_customer_message rd) '''',
                         timestamp = ts1\<rparr>,
                       \<lparr>role = ''assistant'', text_of = rd_get (rd_response_text rd) '''',
                         timestamp = ts2\<rparr>])
           \<and> length (history (snapshot conv1)) = min 20 (length (history (snapshot conv)) + 2)
           \<and> previous_intents (snapshot conv1)
               = slice_last 10 (previous_intents (snapshot conv) @ [rd_get (rd_intent rd) ''unknown''])
           \<and> suffix (previous_intents (snapshot conv1))
                   (previous_intents (snapshot conv) @ [rd_get (rd_intent rd) ''unknown''])
           \<and> length (previous_intents (snapshot conv1))
               = min 10 (length (previous_intents (snapshot conv)) + 1)
           \<and> emotion_trend (snapshot conv1)
               = slice_last 10
                   (emotion_trend (snapshot conv) @ [rd_get (rd_dominant_emotion rd) ''neutral''])
           \<and> suffix (emotion_trend (snapshot conv1))
                   (emotion_trend (snapshot conv) @ [rd_get (rd_dominant_emotion rd) ''neutral''])
           \<and> length (emotion_trend (snapshot conv1))
               = min 10 (length (emotion_trend (snapshot conv)) + 1)
           \<and> turn_count (snapshot conv1) = turn_count (snapshot conv) + 1"
  proof (intro exI [of _ "update_conversation conv rd ts1 ts2 now"] conjI)
    show "fst (update db cid rd ts1 ts2 now) cid = Some (update_conversation conv rd ts1 ts2 now)"
      using row by (simp add: update_existing)
    show h: "history (snapshot (update_conversation conv rd ts1 ts2 now))
               = slice_last 20
                   (history (snapshot conv)
                    @ [\<lparr>role = ''customer'', text_of = rd_get (rd_customer_message rd) '''',
                         timestamp = ts1\<rparr>,
                       \<lparr>role = ''assistant'', text_of = rd_get (rd_response_text rd) '''',
                         timestamp = ts2\<rparr>])"
      by (simp add: snapshot_def ctx_get_update_conversation)
    show "suffix (history (snapshot (update_conversation conv rd ts1 ts2 now)))
                   (history (snapshot conv)
                    @ [\<lparr>role = ''customer'', text_of = rd_get (rd_customer_message rd) '''',
                         timestamp = ts1\<rparr>,
                       \<lparr>role = ''assistant'', text_of = rd_get (rd_response_text rd) '''',
                         timestamp = ts2\<rparr>])"
      unfolding h by (rule suffix_slice_last)
    show "length (history (snapshot (update_conversation conv rd ts1 ts2 now)))
            = min 20 (length (history (snapshot conv)) + 2)"
      unfolding h by (simp add: length_slice_last)
    show p: "previous_intents (snapshot (update_conversation conv rd ts1 ts2 now))
               = slice_last 10 (previous_intents (snapshot conv) @ [rd_get (rd_intent rd) ''unknown''])"
      by (simp add: snapshot_def ctx_get_update_conversation)
    show "suffix (previous_intents (snapshot (update_conversation conv rd ts1 ts2 now)))
                   (previous_intents (snapshot conv) @ [rd_get (rd_intent rd) ''unknown''])"
      unfolding p by (rule suffix_slice_last)
    show "length (previous_intents (snapshot (update_conversation conv rd ts1 ts2 now)))
               = min 10 (length (previous_intents (snapshot conv)) + 1)"
      unfolding p by (simp add: length_slice_last)
    show e: "emotion_trend (snapshot (update_conversation conv rd ts1 ts2 now))
               = slice_last 10
                   (emotion_trend (snapshot conv) @ [rd_get (rd_dominant_emotion rd) ''neutral''])"
      by (simp add: snapshot_def ctx_get_update_conversation)
    show "suffix (emotion_trend (snapshot (update_conversation conv rd ts1 ts2 now)))
                   (emotion_trend (snapshot conv) @ [rd_get (rd_dominant_emotion rd) ''neutral''])"
      unfolding e by (rule suffix_slice_last)
    show "length (emotion_trend (snapshot (update_conversation conv rd ts1 ts2 now)))
               = min 10 (length (emotion_trend (snapshot conv)) + 1)"
      unfolding e by (simp add: length_slice_last)
    show "turn_count (snapshot (update_conversation conv rd ts1 ts2 now))
            = turn_count (snapshot conv) + 1"
      by (simp add: snapshot_def ctx_get_update_conversation)
  qed
qed

theorem capped_sequences_invariant_witness:
  "run_ops Map.empty example_ops ''conv-1''
     = Some (update_conversation
               (update_conversation (new_conversation ''conv-1'' ''CUST-001'' ''chat'' ''t0'')
                  (example_rd ''unknown'') ''t1'' ''t2'' ''t3'')
               (example_rd ''billing'') ''t4'' ''t5'' ''t6'')
   \<and> within_caps
        (update_conversation
           (update_conversation (new_conversation ''conv-1'' ''CUST-001'' ''chat'' ''t0'')
              (example_rd ''unknown'') ''t1'' ''t2'' ''t3'')
           (example_rd ''billing'') ''t4'' ''t5'' ''t6'')
   \<and> store_within_caps example_db
   \<and> store_within_caps (run_ops example_db example_ops)
   \<and> (\<exists>conv1. fst (update example_db ''conv-1'' (example_rd ''unknown'') ''t1'' ''t2'' ''t3'')
                  ''conv-1'' = Some conv1
         \<and> length (history (snapshot conv1)) = 2
         \<and> previous_intents (snapshot conv1) = [''unknown'', ''unclear'', ''unknown'']
         \<and> turn_count (snapshot conv1) = 3)"
proof -
  have row: "run_ops Map.empty example_ops ''conv-1''
     = Some (update_conversation
               (update_conversation (new_conversation ''conv-1'' ''CUST-001'' ''chat'' ''t0'')
                  (example_rd ''unknown'') ''t1'' ''t2'' ''t3'')
               (example_rd ''billing'') ''t4'' ''t5'' ''t6'')"
    by (simp add: run_ops_def example_ops_def get_or_create_def update_def Let_def)
  have reached: "store_within_caps (run_ops Map.empty example_ops)"
    using capped_sequences_invariant [of Map.empty example_ops] by simp
  have caps: "within_caps
        (update_conversation
           (update_conversation (new_conversation ''conv-1'' ''CUST-001'' ''chat'' ''t0'')
              (example_rd ''unknown'') ''t1'' ''t2'' ''t3'')
           (example_rd ''billing'') ''t4'' ''t5'' ''t6'')"
    using reached row unfolding store_within_caps_def by blast
  have start: "store_within_caps example_db"
    by (simp add: store_within_caps_def example_db_def within_caps_def ctx_get_def
        example_conversation_def)
  have kept: "store_within_caps (run_ops example_db example_ops)"
    using capped_sequences_invariant [of example_db example_ops] start by simp
  have before: "example_db ''conv-1'' = Some example_conversation"
    "history (snapshot example_conversation) = []"
    "previous_intents (snapshot example_conversation) = [''unknown'', ''unclear'']"
    "turn_count (snapshot example_conversation) = 2"
    by (simp_all add: example_db_def snapshot_def ctx_get_def example_conversation_def)
  have step: "\<exists>conv1. fst (update example_db ''conv-1'' (example_rd ''unknown'') ''t1'' ''t2'' ''t3'')
                  ''conv-1'' = Some conv1
         \<and> length (history (snapshot conv1)) = 2
         \<and> previous_intents (snapshot conv1) = [''unknown'', ''unclear'', ''unknown'']
         \<and> turn_count (snapshot conv1) = 3"
    using capped_sequences_invariant [of example_db "[]" "''conv-1''" example_conversation
        "example_rd ''unknown''" "''t1''" "''t2''" "''t3''"] before
    by (auto simp: example_rd_def rd_get_def slice_last_def)
  from row caps start kept step show ?thesis by blast
qed

section \<open>Round trip through the store\<close>

lemma snapshot_new_conversation:
  "snapshot (new_conversation new_id customer_id channel now)
     = \<lparr>conversation_id = new_id, ctx_customer_id = customer_id, ctx_channel = channel,
        ctx_language = ''en'', history = [], previous_intents = [], emotion_trend = [],
        is_escalated = False, turn_count = 0, unresolved_turns = 0\<rparr>"
  by (simp add: snapshot_def new_conversation_def ctx_get_def)

lemma get_or_create_existing:
  assumes "cid \<noteq> []" and "db cid = Some conv"
  shows "get_or_create db (Some cid) customer_id channel uuid now
           = Inr (db, snapshot conv,
                  [Log Info ''context_loaded'' [(''conversation_id'', VStr cid)]])"
  using assms by (simp add: get_or_create_def)

lemma get_or_create_new:
  assumes "cid \<noteq> []" and "db cid = None"
  shows "get_or_create db (Some cid) customer_id channel uuid now
           = Inr (db(cid \<mapsto> new_conversation cid customer_id channel now),
                  snapshot (new_conversation cid customer_id channel now),
                  [Log Info ''context_created'' [(''conversation_id'', VStr cid)]])"
  using assms by (simp add: get_or_create_def snapshot_new_conversation)

text \<open>
  For a non-empty identifier \<open>get_or_create\<close> returns (it never raises), the row it
  returns the snapshot of is in the table it leaves, under that identifier.
\<close>

lemma get_or_create_nonempty:
  assumes "cid \<noteq> []"
  shows "\<exists>db1 conv lg. get_or_create db (Some cid) customer_id channel uuid now
                          = Inr (db1, snapshot conv, lg)
           \<and> db1 cid = Some conv \<and> conv_id conv = conversation_id (snapshot conv)
           \<and> (db cid = Some conv \<and> db1 = db
               \<or> db cid = None \<and> conv = new_conversation cid customer_id channel now)"
proof (cases "db cid")
  case None
  then show ?thesis
    using assms get_or_create_new [of cid db customer_id channel uuid now]
    by (auto simp: snapshot_def)
next
  case (Some conv)
  then show ?thesis
    using assms get_or_create_existing [of cid db conv customer_id channel uuid now]
    by (auto simp: snapshot_def)
qed

text \<open>
  Claim C8, as amended. For every non-empty conversation identifier, \<open>get_or_create\<close>,
  then \<open>update\<close> with a turn result, then \<open>get_or_create\<close> again for the same
  identifier all return, and the second snapshot reflects the update of the first:
  \<open>turn_count\<close> is one more, \<open>unresolved_turns\<close> follows the increment/reset rule, and
  the history, previous-intent and emotion sequences are the old ones extended by the
  turn and cut to their last 20, 10 and 10 elements; language and escalation state are
  those of the turn. (An empty identifier is treated as no identifier: a fresh one is
  generated.)
\<close>

theorem get_update_get_round_trip:
  assumes "cid \<noteq> []"
  shows "\<exists>db1 ctx1 log1 db2 log2 ctx2 log3.
           get_or_create db (Some cid) customer_id channel uuid now0 = Inr (db1, ctx1, log1)
         \<and> update db1 cid rd ts1 ts2 now1 = (db2, log2)
         \<and> get_or_create db2 (Some cid) customer_id2 channel2 uuid2 now2 = Inr (db2, ctx2, log3)
         \<and> conversation_id ctx2 = conversation_id ctx1
         \<and> turn_count ctx2 = turn_count ctx1 + 1
         \<and> unresolved_turns ctx2
             = (if rd_get (rd_intent rd) ''unknown'' \<in> {''unknown'', ''unclear'', ''unresolved''}
                then unresolved_turns ctx1 + 1 else 0)
         \<and> history ctx2
             = slice_last 20
                 (history ctx1
                  @ [\<lparr>role = ''customer'', text_of = rd_get (rd_customer_message rd) '''',
                       timestamp = ts1\<rparr>,
                     \<lparr>role = ''assistant'', text_of = rd_get (rd_response_text rd) '''',
                       timestamp = ts2\<rparr>])
         \<and> previous_intents ctx2
             = slice_last 10 (previous_intents ctx1 @ [rd_get (rd_intent rd) ''unknown''])
         \<and> emotion_trend ctx2
             = slice_last 10 (emotion_trend ctx1 @ [rd_get (rd_dominant_emotion rd) ''neutral''])
         \<and> ctx_language ctx2 = rd_get (rd_language rd) (ctx_language ctx1)
         \<and> is_escalated ctx2 = rd_get (rd_escalation_flag rd) False"
proof -
  obtain db1 conv lg where
    first: "get_or_create db (Some cid) customer_id channel uuid now0 = Inr (db1, snapshot conv, lg)"
    and row: "db1 cid = Some conv"
    using get_or_create_nonempty [OF assms, of db customer_id channel uuid now0] by blast
  let ?conv1 = "update_conversation conv rd ts1 ts2 now1"
  let ?db2 = "db1(cid \<mapsto> ?conv1)"
  have second: "update db1 cid rd ts1 ts2 now1
      = (?db2, [Log Info ''context_updated''
                  [(''conversation_id'', VStr cid), (''turn'', VInt (ctx_get cj_turn_count 0 ?conv1))]])"
    using row by (simp add: update_def Let_def)
  have third: "get_or_create ?db2 (Some cid) customer_id2 channel2 uuid2 now2
      = Inr (?db2, snapshot ?conv1,
             [Log Info ''context_loaded'' [(''conversation_id'', VStr cid)]])"
    using assms by (intro get_or_create_existing) simp_all
  have fields:
    "conversation_id (snapshot ?conv1) = conversation_id (snapshot conv)"
    "turn_count (snapshot ?conv1) = turn_count (snapshot conv) + 1"
    "unresolved_turns (snapshot ?conv1)
       = (if rd_get (rd_intent rd) ''unknown'' \<in> {''unknown'', ''unclear'', ''unresolved''}
          then unresolved_turns (snapshot conv) + 1 else 0)"
    "history (snapshot ?conv1)
       = slice_last 20
           (history (snapshot conv)
            @ [\<lparr>role = ''customer'', text_of = rd_get (rd_customer_message rd) '''',
                 timestamp = ts1\<rparr>,
               \<lparr>role = ''assistant'', text_of = rd_get (rd_response_text rd) '''',
                 timestamp = ts2\<rparr>])"
    "previous_intents (snapshot ?conv1)
       = slice_last 10 (previous_intents (snapshot conv) @ [rd_get (rd_intent rd) ''unknown''])"
    "emotion_trend (snapshot ?conv1)
       = slice_last 10
           (emotion_trend (snapshot conv) @ [rd_get (rd_dominant_emotion rd) ''neutral''])"
    "ctx_language (snapshot ?conv1) = rd_get (rd_language rd) (ctx_language (snapshot conv))"
    "is_escalated (snapshot ?conv1) = rd_get (rd_escalation_flag rd) False"
    by (simp_all add: snapshot_def ctx_get_update_conversation update_conversation_fields
        unresolved_like_def)
  from first second third fields show ?thesis by blast
qed

theorem get_update_get_round_trip_witness:
  "\<exists>db1 ctx1 log1 db2 log2 ctx2 log3.
       get_or_create example_db (Some ''conv-1'') ''CUST-001'' ''chat'' ''uuid-1'' ''t0''
         = Inr (db1, ctx1, log1)
     \<and> update db1 ''conv-1'' (example_rd ''unknown'') ''t1'' ''t2'' ''t3'' = (db2, log2)
     \<and> get_or_create db2 (Some ''conv-1'') ''CUST-001'' ''chat'' ''uuid-2'' ''t4''
         = Inr (db2, ctx2, log3)
     \<and> turn_count ctx1 = 2 \<and> turn_count ctx2 = 3
     \<and> unresolved_turns ctx1 = 2 \<and> unresolved_turns ctx2 = 3
     \<and> emotion_trend ctx2 = [''neutral'', ''anger'', ''anger'']"
proof -
  have nonempty: "''conv-1'' \<noteq> []" by simp
  obtain db1 ctx1 log1 db2 log2 ctx2 log3 where
    a: "get_or_create example_db (Some ''conv-1'') ''CUST-001'' ''chat'' ''uuid-1'' ''t0''
          = Inr (db1, ctx1, log1)"
    and b: "update db1 ''conv-1'' (example_rd ''unknown'') ''t1'' ''t2'' ''t3'' = (db2, log2)"
    and c: "get_or_create db2 (Some ''conv-1'') ''CUST-001'' ''chat'' ''uuid-2'' ''t4''
          = Inr (db2, ctx2, log3)"
    and t: "turn_count ctx2 = turn_count ctx1 + 1"
    and u: "unresolved_turns ctx2
             = (if rd_get (rd_intent (example_rd ''unknown'')) ''unknown''
                     \<in> {''unknown'', ''unclear'', ''unresolved''}
                then unresolved_turns ctx1 + 1 else 0)"
    and e: "emotion_trend ctx2
             = slice_last 10 (emotion_trend ctx1
                 @ [rd_get (rd_dominant_emotion (example_rd ''unknown'')) ''neutral''])"
    using get_update_get_round_trip [OF nonempty, of example_db "''CUST-001''" "''chat''"
        "''uuid-1''" "''t0''" "example_rd ''unknown''" "''t1''" "''t2''" "''t3''"
        "''CUST-001''" "''chat''" "''uuid-2''" "''t4''"]
    by blast
  have "get_or_create example_db (Some ''conv-1'') ''CUST-001'' ''chat'' ''uuid-1'' ''t0''
          = Inr (example_db, snapshot example_conversation,
                 [Log Info ''context_loaded'' [(''conversation_id'', VStr ''conv-1'')]])"
    by (simp add: get_or_create_def example_db_def)
  with a have ctx1: "ctx1 = snapshot example_conversation" by simp
  have start: "turn_count ctx1 = 2" "unresolved_turns ctx1 = 2"
    "emotion_trend ctx1 = [''neutral'', ''anger'']"
    by (simp_all add: ctx1 snapshot_def ctx_get_def example_conversation_def)
  have "turn_count ctx2 = 3" "unresolved_turns ctx2 = 3"
    "emotion_trend ctx2 = [''neutral'', ''anger'', ''anger'']"
    using t u e start by (simp_all add: example_rd_def rd_get_def slice_last_def)
  with a b c start show ?thesis by blast
qed

text \<open>
  The claim as stated fails for the empty identifier: \<open>get_or_create\<close> stores the new
  row under a generated identifier, the \<open>update\<close> for \<open>""\<close> is a miss, and the second
  \<open>get_or_create\<close> for \<open>""\<close> creates another row, whose \<open>turn_count\<close> is 0 and whose
  history is empty.
\<close>

theorem round_trip_empty_identifier:
  "get_or_create Map.empty (Some '''') ''CUST-001'' ''chat'' ''uuid-1'' ''t0''
     = Inr ([''uuid-1'' \<mapsto> new_conversation ''uuid-1'' ''CUST-001'' ''chat'' ''t0''],
            snapshot (new_conversation ''uuid-1'' ''CUST-001'' ''chat'' ''t0''),
            [Log Info ''context_created'' [(''conversation_id'', VStr ''uuid-1'')]])
   \<and> update [''uuid-1'' \<mapsto> new_conversation ''uuid-1'' ''CUST-001'' ''chat'' ''t0''] ''''
        (example_rd ''unknown'') ''t1'' ''t2'' ''t3''
     = ([''uuid-1'' \<mapsto> new_conversation ''uuid-1'' ''CUST-001'' ''chat'' ''t0''],
        [Log Warning ''context_update_miss'' [(''conversation_id'', VStr '''')]])
   \<and> get_or_create [''uuid-1'' \<mapsto> new_conversation ''uuid-1'' ''CUST-001'' ''chat'' ''t0'']
        (Some '''') ''CUST-001'' ''chat'' ''uuid-2'' ''t4''
     = Inr ([''uuid-1'' \<mapsto> new_conversation ''uuid-1'' ''CUST-001'' ''chat'' ''t0'',
             ''uuid-2'' \<mapsto> new_conversation ''uuid-2'' ''CUST-001'' ''chat'' ''t4''],
            snapshot (new_conversation ''uuid-2'' ''CUST-001'' ''chat'' ''t4''),
            [Log Info ''context_created'' [(''conversation_id'', VStr ''uuid-2'')]])
   \<and> turn_count (snapshot (new_conversation ''uuid-1'' ''CUST-001'' ''chat'' ''t0'')) = 0
   \<and> turn_count (snapshot (new_conversation ''uuid-2'' ''CUST-001'' ''chat'' ''t4'')) = 0
   \<and> turn_count (snapshot (new_conversation ''uuid-2'' ''CUST-001'' ''chat'' ''t4''))
       \<noteq> turn_count (snapshot (new_conversation ''uuid-1'' ''CUST-001'' ''chat'' ''t0'')) + 1
   \<and> history (snapshot (new_conversation ''uuid-2'' ''CUST-001'' ''chat'' ''t4'')) = []"
  by (simp add: get_or_create_def update_def snapshot_new_conversation Let_def)

section \<open>Rate limiter\<close>














section \<open>Agent contract and pipeline\<close>

lemma safe_process_outcome:
  assumes "raises_only_exceptions process"
  shows "snd (safe_process agent_name iid process x) = Inr (outcome_of process x)"
proof (cases "process x")
  case (Inl e)
  then show ?thesis
    using assms
    by (cases e) (auto simp: safe_process_def outcome_of_def raises_only_exceptions_def Let_def)
next
  case (Inr r)
  then show ?thesis by (simp add: safe_process_def outcome_of_def Let_def)
qed

lemma get_or_create_returns:
  assumes "truthy cid \<or> db uuid = None"
  shows "\<exists>db1 ctx lg. get_or_create db cid customer_id channel uuid now = Inr (db1, ctx, lg)"
  using assms by (cases cid) (auto simp: get_or_create_def Let_def split: option.splits)

lemma always_fails_outcome: "always_fails process \<Longrightarrow> outcome_of process x = None"
proof -
  assume "always_fails process"
  then obtain e where "process x = Inl (Exception e)"
    unfolding always_fails_def by blast
  then show ?thesis by (simp add: outcome_of_def)
qed

lemma run_pipeline_response:
  assumes "raises_only_exceptions (ocs_process ag)" and "raises_only_exceptions (kfo_process ag)"
    and "raises_only_exceptions (eia_process ag)" and "raises_only_exceptions (pir_process ag)"
    and "truthy (req_conversation_id request) \<or> db (env_conversation_uuid env) = None"
  shows "\<exists>res db1 ctx lg ocs_output kfo_output eia_output pir_output.
           run_pipeline fmt cfg ag env db request = Inr res
         \<and> get_or_create db (req_conversation_id request) (req_customer_id request)
              (channel_value (req_channel request)) (env_conversation_uuid env) (env_created_at env)
             = Inr (db1, ctx, lg)
         \<and> pr_response res
             = aggregate_outputs fmt cfg (env_response_timestamp env) (env_interaction_id env)
                 (req_customer_id request) (req_channel request)
                 (case ocs_output of Some ocs \<Rightarrow> ocs_language ocs | None \<Rightarrow> EN)
                 (req_customer_message request) ctx ocs_output kfo_output eia_output pir_output None
         \<and> (always_fails (ocs_process ag) \<longrightarrow> ocs_output = None)
         \<and> (always_fails (kfo_process ag) \<longrightarrow> kfo_output = None)
         \<and> (always_fails (eia_process ag) \<longrightarrow> eia_output = None)
         \<and> (always_fails (pir_process ag) \<longrightarrow> pir_output = None)"
proof -
  obtain db1 ctx lg where g: "get_or_create db (req_conversation_id request) (req_customer_id request)
              (channel_value (req_channel request)) (env_conversation_uuid env) (env_created_at env)
             = Inr (db1, ctx, lg)"
    using get_or_create_returns [of "req_conversation_id request" db "env_conversation_uuid env"]
      assms(5) by blast
  show ?thesis
    apply (simp add: run_pipeline_def g bind_raised_def Let_def split_beta
        safe_process_outcome [OF assms(1)] safe_process_outcome [OF assms(2)]
        safe_process_outcome [OF assms(3)] safe_process_outcome [OF assms(4)])
    apply (cases "truthy (req_account_id request)")
     apply simp
     apply (intro exI conjI)
         apply (rule refl)
        apply (simp_all add: always_fails_outcome)
    apply (intro exI conjI)
        apply (rule refl)
       apply (simp_all add: always_fails_outcome)
    done
qed

text \<open>
  Claim C2, as amended. For every agent and every input, whenever the wrapped \<open>process\<close>
  raises an exception that derives from \<open>Exception\<close>, \<open>safe_process\<close> returns the absent
  outcome (\<open>None\<close>); when \<open>process\<close> returns, \<open>safe_process\<close> returns its output; and
  when \<open>process\<close> raises nothing outside \<open>Exception\<close>, \<open>safe_process\<close> raises nothing.
  When none of the four agents of the synchronous steps raises outside \<open>Exception\<close> (and
  a generated conversation identifier is not yet in the table), the coordinator's
  pipeline returns a response; for each agent that fails on every input that response
  carries the defaults of the agent's fields and the marker \<open>"skipped"\<close> in the
  agent's log entry. (What \<open>except Exception\<close> does not match, such as
  \<open>KeyboardInterrupt\<close>, \<open>SystemExit\<close> or \<open>asyncio.CancelledError\<close>, propagates.)
\<close>

theorem safe_process_isolates_failures:
  "(process x = Inl (Exception e)
      \<longrightarrow> snd (safe_process agent_name iid process x) = Inr None)
   \<and> (process x = Inr result
      \<longrightarrow> snd (safe_process agent_name iid process x) = Inr (Some result))
   \<and> (raises_only_exceptions process
      \<longrightarrow> (\<exists>outcome. snd (safe_process agent_name iid process x) = Inr outcome))
   \<and> (raises_only_exceptions (ocs_process ag) \<and> raises_only_exceptions (kfo_process ag)
       \<and> raises_only_exceptions (eia_process ag) \<and> raises_only_exceptions (pir_process ag)
       \<and> (truthy (req_conversation_id request) \<or> db (env_conversation_uuid env) = None)
      \<longrightarrow> (\<exists>res. run_pipeline fmt cfg ag env db request = Inr res
            \<and> (always_fails (ocs_process ag)
                 \<longrightarrow> resp_response_text (pr_response res) = ''''
                     \<and> resp_intent (pr_response res) = ''unknown''
                     \<and> log_ocs (resp_agent_logs (pr_response res)) = Status ''skipped'')
            \<and> (always_fails (kfo_process ag)
                 \<longrightarrow> resp_suggested_faq_articles (pr_response res) = []
                     \<and> log_kfo (resp_agent_logs (pr_response res)) = Status ''skipped'')
            \<and> (always_fails (eia_process ag)
                 \<longrightarrow> resp_sentiment_score (pr_response res) = 0
                     \<and> resp_dominant_emotion (pr_response res) = ''neutral''
                     \<and> log_eia (resp_agent_logs (pr_response res)) = Status ''skipped'')
            \<and> (always_fails (pir_process ag)
                 \<longrightarrow> resp_proactive_alerts (pr_response res) = []
                     \<and> log_pir (resp_agent_logs (pr_response res)) = Status ''skipped'')))"
proof (intro conjI impI)
  assume "process x = Inl (Exception e)"
  then show "snd (safe_process agent_name iid process x) = Inr None"
    by (simp add: safe_process_def Let_def)
next
  assume "process x = Inr result"
  then show "snd (safe_process agent_name iid process x) = Inr (Some result)"
    by (simp add: safe_process_def Let_def)
next
  assume "raises_only_exceptions process"
  then show "\<exists>outcome. snd (safe_process agent_name iid process x) = Inr outcome"
    by (simp add: safe_process_outcome)
next
  assume hyp: "raises_only_exceptions (ocs_process ag) \<and> raises_only_exceptions (kfo_process ag)
       \<and> raises_only_exceptions (eia_process ag) \<and> raises_only_exceptions (pir_process ag)
       \<and> (truthy (req_conversation_id request) \<or> db (env_conversation_uuid env) = None)"
  then obtain res ctx ocs_output kfo_output eia_output pir_output where
    run: "run_pipeline fmt cfg ag env db request = Inr res"
    and resp: "pr_response res
             = aggregate_outputs fmt cfg (env_response_timestamp env) (env_interaction_id env)
                 (req_customer_id request) (req_channel request)
                 (case ocs_output of Some ocs \<Rightarrow> ocs_language ocs | None \<Rightarrow> EN)
                 (req_customer_message request) ctx ocs_output kfo_output eia_output pir_output None"
    and absent: "always_fails (ocs_process ag) \<longrightarrow> ocs_output = None"
      "always_fails (kfo_process ag) \<longrightarrow> kfo_output = None"
      "always_fails (eia_process ag) \<longrightarrow> eia_output = None"
      "always_fails (pir_process ag) \<longrightarrow> pir_output = None"
    using run_pipeline_response [of ag request db env fmt cfg] by blast
  show "\<exists>res. run_pipeline fmt cfg ag env db request = Inr res
            \<and> (always_fails (ocs_process ag)
                 \<longrightarrow> resp_response_text (pr_response res) = ''''
                     \<and> resp_intent (pr_response res) = ''unknown''
                     \<and> log_ocs (resp_agent_logs (pr_response res)) = Status ''skipped'')
            \<and> (always_fails (kfo_process ag)
                 \<longrightarrow> resp_suggested_faq_articles (pr_response res) = []
                     \<and> log_kfo (resp_agent_logs (pr_response res)) = Status ''skipped'')
            \<and> (always_fails (eia_process ag)
                 \<longrightarrow> resp_sentiment_score (pr_response res) = 0
                     \<and> resp_dominant_emotion (pr_response res) = ''neutral''
                     \<and> log_eia (resp_agent_logs (pr_response res)) = Status ''skipped'')
            \<and> (always_fails (pir_process ag)
                 \<longrightarrow> resp_proactive_alerts (pr_response res) = []
                     \<and> log_pir (resp_agent_logs (pr_response res)) = Status ''skipped'')"
  proof (intro exI [of _ res] conjI impI)
    show "run_pipeline fmt cfg ag env db request = Inr res" by (rule run)
  next
    assume "always_fails (ocs_process ag)"
    then have "ocs_output = None" using absent(1) by simp
    then show "resp_response_text (pr_response res) = ''''"
      and "resp_intent (pr_response res) = ''unknown''"
      and "log_ocs (resp_agent_logs (pr_response res)) = Status ''skipped''"
      by (simp_all add: resp aggregate_outputs_def split_beta)
  next
    assume "always_fails (kfo_process ag)"
    then have "kfo_output = None" using absent(2) by simp
    then show "resp_suggested_faq_articles (pr_response res) = []"
      and "log_kfo (resp_agent_logs (pr_response res)) = Status ''skipped''"
      by (simp_all add: resp aggregate_outputs_def split_beta)
  next
    assume "always_fails (eia_process ag)"
    then have "eia_output = None" using absent(3) by simp
    then show "resp_sentiment_score (pr_response res) = 0"
      and "resp_dominant_emotion (pr_response res) = ''neutral''"
      and "log_eia (resp_agent_logs (pr_response res)) = Status ''skipped''"
      by (simp_all add: resp aggregate_outputs_def split_beta)
  next
    assume "always_fails (pir_process ag)"
    then have "pir_output = None" using absent(4) by simp
    then show "resp_proactive_alerts (pr_response res) = []"
      and "log_pir (resp_agent_logs (pr_response res)) = Status ''skipped''"
      by (simp_all add: resp aggregate_outputs_def split_beta)
  qed
qed

theorem safe_process_isolates_failures_witness:
  "snd (safe_process ''OCS'' ocs_in_interaction_id (ocs_process failing_agents) example_ocs_input)
     = Inr None
   \<and> (\<exists>res. run_pipeline example_format empty_config failing_agents example_env Map.empty
               example_request = Inr res
         \<and> resp_response_text (pr_response res) = ''''
         \<and> resp_intent (pr_response res) = ''unknown''
         \<and> resp_sentiment_score (pr_response res) = 0
         \<and> resp_dominant_emotion (pr_response res) = ''neutral''
         \<and> resp_suggested_faq_articles (pr_response res) = []
         \<and> resp_proactive_alerts (pr_response res) = []
         \<and> log_ocs (resp_agent_logs (pr_response res)) = Status ''skipped'')"
proof -
  have raises: "ocs_process failing_agents example_ocs_input = Inl (Exception ''provider unavailable'')"
    by (simp add: failing_agents_def)
  have only: "raises_only_exceptions (ocs_process failing_agents)"
    "raises_only_exceptions (kfo_process failing_agents)"
    "raises_only_exceptions (eia_process failing_agents)"
    "raises_only_exceptions (pir_process failing_agents)"
    by (simp_all add: raises_only_exceptions_def failing_agents_def)
  have fails: "always_fails (ocs_process failing_agents)"
    "always_fails (kfo_process failing_agents)"
    "always_fails (eia_process failing_agents)"
    "always_fails (pir_process failing_agents)"
    by (simp_all add: always_fails_def failing_agents_def)
  have fresh: "truthy (req_conversation_id example_request)
                 \<or> Map.empty (env_conversation_uuid example_env) = None"
    by simp
  note inst = safe_process_isolates_failures [of "ocs_process failing_agents" example_ocs_input
      "''provider unavailable''" "''OCS''" ocs_in_interaction_id
      "\<lparr>ocs_response_text = [], ocs_intent = [], ocs_suggested_faq_ids = [],
        ocs_escalation_flag = False, ocs_language = EN\<rparr>"
      failing_agents example_request Map.empty example_env example_format empty_config]
  have isolated: "snd (safe_process ''OCS'' ocs_in_interaction_id (ocs_process failing_agents)
                    example_ocs_input) = Inr None"
    using inst raises by simp
  have pipeline: "\<exists>res. run_pipeline example_format empty_config failing_agents example_env
               Map.empty example_request = Inr res
         \<and> resp_response_text (pr_response res) = ''''
         \<and> resp_intent (pr_response res) = ''unknown''
         \<and> resp_sentiment_score (pr_response res) = 0
         \<and> resp_dominant_emotion (pr_response res) = ''neutral''
         \<and> resp_suggested_faq_articles (pr_response res) = []
         \<and> resp_proactive_alerts (pr_response res) = []
         \<and> log_ocs (resp_agent_logs (pr_response res)) = Status ''skipped''"
    using inst only fails fresh by auto
  from isolated pipeline show ?thesis by simp
qed

text \<open>
  The claim as stated fails for an exception outside \<open>Exception\<close>: a cancelled
  generator call propagates through \<open>safe_process\<close> and through the pipeline, which then
  returns no response.
\<close>

theorem safe_process_propagates_cancellation:
  "ocs_process cancelled_agents example_ocs_input = Inl (NonException ''CancelledError'')
   \<and> snd (safe_process ''OCS'' ocs_in_interaction_id (ocs_process cancelled_agents)
            example_ocs_input)
       = Inl (NonException ''CancelledError'')
   \<and> snd (safe_process ''OCS'' ocs_in_interaction_id (ocs_process cancelled_agents)
            example_ocs_input)
       \<noteq> Inr None
   \<and> run_pipeline example_format empty_config cancelled_agents example_env Map.empty
        example_request
       = Inl (NonException ''CancelledError'')"
  by (simp add: safe_process_def run_pipeline_def bind_raised_def get_or_create_def
      cancelled_agents_def failing_agents_def example_request_def example_env_def Let_def)

end
